theory Spec2Isabelle
  imports Complex_Main
begin

section \<open>Python values, exceptions and log events\<close>

text \<open>
  A Python \<^verbatim>\<open>float\<close> is a finite value, an infinity or \<^verbatim>\<open>NaN\<close>. The finite values
  of the code are doubles; \<open>Fin\<close> takes any real, the doubles among them.
\<close>

datatype pyfloat = Fin real | PInf | NInf | NaN

text \<open>
  The value \<^verbatim>\<open>json.loads\<close> returns: \<^verbatim>\<open>None\<close>, a bool, an \<^verbatim>\<open>int\<close> (unbounded), a
  \<^verbatim>\<open>float\<close> (the decoder also gives \<^verbatim>\<open>NaN\<close> and the infinities), a str, a list or a
  dict. A dict is the association list of its items, read with \<open>map_of\<close>.
\<close>

datatype json =
    JNull
  | JBool bool
  | JInt int
  | JFloat pyfloat
  | JStr string
  | JList "json list"
  | JDict "(string \<times> json) list"

text \<open>The exceptions the code can meet; all are subclasses of \<^verbatim>\<open>Exception\<close>.\<close>

datatype error = JSONDecodeError | AttributeError | TypeError | ValueError | OverflowError

text \<open>
  One constructor for each \<^verbatim>\<open>logger\<close> call of the module, named by its level, with the
  values its f-string formats.
\<close>

datatype log_event =
    Info_StallThreshold pyfloat
  | Info_RollingWindowSize int
  | Info_ThresholdHigh pyfloat
  | Info_ThresholdLow pyfloat
  | Debug_Waiting nat int
  | Debug_Range json bool
  | Warning_High json
  | Warning_Low json
  | Debug_RawMessage string
  | Info_Processed json
  | Error_InvalidFormat string
  | Info_StallDetected json json int
  | Error_JSONDecoding string error
  | Error_Processing string error

text \<open>A call either raises or returns, and has logged some events by then.\<close>

type_synonym 'a io = "log_event list \<times> (error + 'a)"

section \<open>The environment and its getters\<close>

text \<open>
  What \<^verbatim>\<open>float(os.getenv(NAME, default))\<close> meets: the variable is not set, it is set to a
  text that the conversion accepts as the value \<open>x\<close> (\<^verbatim>\<open>float\<close> accepts \<^verbatim>\<open>nan\<close> and
  \<^verbatim>\<open>inf\<close> too), or it is set to a text that the conversion rejects with
  \<^verbatim>\<open>ValueError\<close>.
\<close>

datatype 'a entry = Unset | Parses 'a | Malformed

record environ =
  HEART_STALL_THRESHOLD_BPM :: "pyfloat entry"
  HEART_ROLLING_WINDOW_SIZE :: "int entry"
  HEART_RATE_THRESHOLD_HIGH :: "pyfloat entry"
  HEART_RATE_THRESHOLD_LOW :: "pyfloat entry"

definition get_stall_threshold :: "environ \<Rightarrow> pyfloat io" where
  "get_stall_threshold env =
     (case HEART_STALL_THRESHOLD_BPM env of
        Malformed \<Rightarrow> ([], Inl ValueError)
      | Unset \<Rightarrow> ([Info_StallThreshold (Fin 5)], Inr (Fin 5))
      | Parses hr_variation \<Rightarrow> ([Info_StallThreshold hr_variation], Inr hr_variation))"

definition get_rolling_window_size :: "environ \<Rightarrow> int io" where
  "get_rolling_window_size env =
     (case HEART_ROLLING_WINDOW_SIZE env of
        Malformed \<Rightarrow> ([], Inl ValueError)
      | Unset \<Rightarrow> ([Info_RollingWindowSize 5], Inr 5)
      | Parses window_size \<Rightarrow> ([Info_RollingWindowSize window_size], Inr window_size))"

definition get_heart_rate_threshold_high :: "environ \<Rightarrow> pyfloat io" where
  "get_heart_rate_threshold_high env =
     (case HEART_RATE_THRESHOLD_HIGH env of
        Malformed \<Rightarrow> ([], Inl ValueError)
      | Unset \<Rightarrow> ([Info_ThresholdHigh (Fin 120)], Inr (Fin 120))
      | Parses threshold_high \<Rightarrow> ([Info_ThresholdHigh threshold_high], Inr threshold_high))"

definition get_heart_rate_threshold_low :: "environ \<Rightarrow> pyfloat io" where
  "get_heart_rate_threshold_low env =
     (case HEART_RATE_THRESHOLD_LOW env of
        Malformed \<Rightarrow> ([], Inl ValueError)
      | Unset \<Rightarrow> ([Info_ThresholdLow (Fin 40)], Inr (Fin 40))
      | Parses threshold_low \<Rightarrow> ([Info_ThresholdLow threshold_low], Inr threshold_low))"

section \<open>Python operators on decoded values\<close>

text \<open>
  The comparisons of two floats: \<^verbatim>\<open>NaN\<close> is neither below, above nor equal to
  anything; the infinities lie outside all finite values.
\<close>

fun fl_lt :: "pyfloat \<Rightarrow> pyfloat \<Rightarrow> bool" where
  "fl_lt NaN y = False"
| "fl_lt x NaN = False"
| "fl_lt (Fin x) (Fin y) = (x < y)"
| "fl_lt x NInf = False"
| "fl_lt PInf y = False"
| "fl_lt NInf y = True"
| "fl_lt x PInf = True"

fun fl_le :: "pyfloat \<Rightarrow> pyfloat \<Rightarrow> bool" where
  "fl_le NaN y = False"
| "fl_le x NaN = False"
| "fl_le (Fin x) (Fin y) = (x \<le> y)"
| "fl_le NInf y = True"
| "fl_le x PInf = True"
| "fl_le x NInf = False"
| "fl_le PInf y = False"

text \<open>
  The value a number compares with. Python compares an \<^verbatim>\<open>int\<close> with a \<^verbatim>\<open>float\<close>
  exactly, without converting, and a bool is an int: \<^verbatim>\<open>True\<close> counts as 1.
\<close>

fun num_of :: "json \<Rightarrow> pyfloat option" where
  "num_of (JInt i) = Some (Fin (of_int i))"
| "num_of (JFloat x) = Some x"
| "num_of (JBool b) = Some (Fin (if b then 1 else 0))"
| "num_of v = None"

fun int_of :: "json \<Rightarrow> int option" where
  "int_of (JInt i) = Some i"
| "int_of (JBool b) = Some (if b then 1 else 0)"
| "int_of v = None"

fun numeric :: "json \<Rightarrow> bool" where
  "numeric (JInt i) = True"
| "numeric (JFloat x) = True"
| "numeric (JBool b) = True"
| "numeric v = False"

text \<open>
  \<^verbatim>\<open>a > b\<close>, \<^verbatim>\<open>a < b\<close> and \<^verbatim>\<open>a <= b\<close>. With a number on one side every other kind
  of value raises \<^verbatim>\<open>TypeError\<close>. Two strings or two lists do compare in Python;
  here they raise at the comparison, where Python raises at the subtraction that
  follows in \<^verbatim>\<open>detect_stall\<close>.
\<close>

definition py_gt :: "json \<Rightarrow> json \<Rightarrow> error + bool" where
  "py_gt a b =
     (case (num_of a, num_of b) of
        (Some x, Some y) \<Rightarrow> Inr (fl_lt y x)
      | _ \<Rightarrow> Inl TypeError)"

definition py_lt :: "json \<Rightarrow> json \<Rightarrow> error + bool" where
  "py_lt a b =
     (case (num_of a, num_of b) of
        (Some x, Some y) \<Rightarrow> Inr (fl_lt x y)
      | _ \<Rightarrow> Inl TypeError)"

definition py_le :: "json \<Rightarrow> json \<Rightarrow> error + bool" where
  "py_le a b =
     (case (num_of a, num_of b) of
        (Some x, Some y) \<Rightarrow> Inr (fl_le x y)
      | _ \<Rightarrow> Inl TypeError)"

text \<open>
  Float arithmetic rounds the exact result to the nearest double. An integer of
  magnitude at most \<open>2 ^ 53\<close> is a double and stays as it is; the rounding of any other
  real inside the range of the doubles is a parameter \<open>rnd\<close> of the model, as the
  decoder is. The range ends where rounding would pass the largest double
  \<open>2 ^ 1024 - 2 ^ 971\<close>, that is at the magnitude \<open>2 ^ 1024 - 2 ^ 970\<close>: from there on a
  float result is an infinity, and the conversion of an \<^verbatim>\<open>int\<close> raises
  \<^verbatim>\<open>OverflowError\<close>.
\<close>

type_synonym rounding = "real \<Rightarrow> real"

definition dbl_overflow :: real where
  "dbl_overflow = 2 ^ 1024 - 2 ^ 970"

definition round_double :: "rounding \<Rightarrow> real \<Rightarrow> pyfloat" where
  "round_double rnd x =
     (if dbl_overflow \<le> x then PInf
      else if x \<le> - dbl_overflow then NInf
      else if of_int \<lfloor>x\<rfloor> = x \<and> \<bar>x\<bar> \<le> 2 ^ 53 then Fin x
      else Fin (rnd x))"

fun float_sub :: "rounding \<Rightarrow> pyfloat \<Rightarrow> pyfloat \<Rightarrow> pyfloat" where
  "float_sub rnd NaN y = NaN"
| "float_sub rnd x NaN = NaN"
| "float_sub rnd (Fin x) (Fin y) = round_double rnd (x - y)"
| "float_sub rnd PInf PInf = NaN"
| "float_sub rnd NInf NInf = NaN"
| "float_sub rnd PInf y = PInf"
| "float_sub rnd NInf y = NInf"
| "float_sub rnd x PInf = NInf"
| "float_sub rnd x NInf = PInf"

definition float_of_int :: "rounding \<Rightarrow> int \<Rightarrow> error + pyfloat" where
  "float_of_int rnd i =
     (if dbl_overflow \<le> \<bar>of_int i\<bar> then Inl OverflowError
      else Inr (round_double rnd (of_int i)))"

fun as_float :: "rounding \<Rightarrow> json \<Rightarrow> error + pyfloat" where
  "as_float rnd (JFloat x) = Inr x"
| "as_float rnd (JInt i) = float_of_int rnd i"
| "as_float rnd (JBool b) = float_of_int rnd (if b then 1 else 0)"
| "as_float rnd v = Inl TypeError"

text \<open>
  \<^verbatim>\<open>a - b\<close>: anything but two numbers raises \<^verbatim>\<open>TypeError\<close>; two ints (or bools)
  subtract exactly and give an int; otherwise the int operand is converted to a
  float and the floats are subtracted.
\<close>

definition py_sub :: "rounding \<Rightarrow> json \<Rightarrow> json \<Rightarrow> error + json" where
  "py_sub rnd a b =
     (if numeric a \<and> numeric b then
        (case (int_of a, int_of b) of
           (Some i, Some j) \<Rightarrow> Inr (JInt (i - j))
         | _ \<Rightarrow>
           (case as_float rnd a of
              Inl e \<Rightarrow> Inl e
            | Inr x \<Rightarrow>
           (case as_float rnd b of
              Inl e \<Rightarrow> Inl e
            | Inr y \<Rightarrow> Inr (JFloat (float_sub rnd x y)))))
      else Inl TypeError)"

text \<open>
  The built-in \<^verbatim>\<open>max\<close> and \<^verbatim>\<open>min\<close>: the first item is the candidate, every later item
  replaces it when it compares strictly greater (smaller); an empty sequence raises
  \<^verbatim>\<open>ValueError\<close>.
\<close>

fun py_max_loop :: "json \<Rightarrow> json list \<Rightarrow> error + json" where
  "py_max_loop maxitem [] = Inr maxitem"
| "py_max_loop maxitem (item # rest) =
     (case py_gt item maxitem of
        Inl e \<Rightarrow> Inl e
      | Inr b \<Rightarrow> py_max_loop (if b then item else maxitem) rest)"

fun py_min_loop :: "json \<Rightarrow> json list \<Rightarrow> error + json" where
  "py_min_loop minitem [] = Inr minitem"
| "py_min_loop minitem (item # rest) =
     (case py_lt item minitem of
        Inl e \<Rightarrow> Inl e
      | Inr b \<Rightarrow> py_min_loop (if b then item else minitem) rest)"

fun py_max :: "json list \<Rightarrow> error + json" where
  "py_max [] = Inl ValueError"
| "py_max (item # rest) = py_max_loop item rest"

fun py_min :: "json list \<Rightarrow> error + json" where
  "py_min [] = Inl ValueError"
| "py_min (item # rest) = py_min_loop item rest"

text \<open>\<^verbatim>\<open>data.get(key)\<close>: only a dict has the method; a missing key gives \<^verbatim>\<open>None\<close>.\<close>

fun py_get :: "json \<Rightarrow> string \<Rightarrow> error + json" where
  "py_get (JDict items) key =
     (case map_of items key of None \<Rightarrow> Inr JNull | Some v \<Rightarrow> Inr v)"
| "py_get v key = Inl AttributeError"

section \<open>The rolling window\<close>

text \<open>
  \<^verbatim>\<open>collections.deque\<close>: the items, oldest first, and \<^verbatim>\<open>maxlen\<close> (\<open>None\<close> when
  unbounded). \<^verbatim>\<open>append\<close> adds on the right and, when that exceeds \<^verbatim>\<open>maxlen\<close>,
  discards one item on the left.
\<close>

record deque =
  elems :: "json list"
  maxlen :: "nat option"

definition deque_new :: "nat \<Rightarrow> deque" where
  "deque_new n = \<lparr>elems = [], maxlen = Some n\<rparr>"

definition deque_append :: "deque \<Rightarrow> json \<Rightarrow> deque" where
  "deque_append d x =
     (let ys = elems d @ [x] in
      case maxlen d of
        None \<Rightarrow> d\<lparr>elems := ys\<rparr>
      | Some n \<Rightarrow> if n < length ys then d\<lparr>elems := tl ys\<rparr> else d\<lparr>elems := ys\<rparr>)"

section \<open>Stall detection\<close>

definition detect_stall :: "rounding \<Rightarrow> environ \<Rightarrow> deque \<Rightarrow> bool io" where
  "detect_stall rnd env rolling_window_deque =
     (case get_rolling_window_size env of
        (l1, Inl e) \<Rightarrow> (l1, Inl e)
      | (l1, Inr WINDOW_SIZE) \<Rightarrow>
          if int (length (elems rolling_window_deque)) < WINDOW_SIZE
          then (l1 @ [Debug_Waiting (length (elems rolling_window_deque)) WINDOW_SIZE], Inr False)
          else
            (case py_max (elems rolling_window_deque) of
               Inl e \<Rightarrow> (l1, Inl e)
             | Inr mx \<Rightarrow>
            (case py_min (elems rolling_window_deque) of
               Inl e \<Rightarrow> (l1, Inl e)
             | Inr mn \<Rightarrow>
            (case py_sub rnd mx mn of
               Inl e \<Rightarrow> (l1, Inl e)
             | Inr hr_range \<Rightarrow>
            (case get_stall_threshold env of
               (l2, Inl e) \<Rightarrow> (l1 @ l2, Inl e)
             | (l2, Inr threshold) \<Rightarrow>
            (case py_le hr_range (JFloat threshold) of
               Inl e \<Rightarrow> (l1 @ l2, Inl e)
             | Inr is_stalled \<Rightarrow>
                 (l1 @ l2 @ [Debug_Range hr_range is_stalled], Inr is_stalled)))))))"

section \<open>Alerting on one reading\<close>

definition alert_on_heart_rate_anomaly :: "environ \<Rightarrow> json \<Rightarrow> unit io" where
  "alert_on_heart_rate_anomaly env heart_rate =
     (case get_heart_rate_threshold_high env of
        (l1, Inl e) \<Rightarrow> (l1, Inl e)
      | (l1, Inr high_threshold) \<Rightarrow>
     (case get_heart_rate_threshold_low env of
        (l2, Inl e) \<Rightarrow> (l1 @ l2, Inl e)
      | (l2, Inr low_threshold) \<Rightarrow>
     (case py_gt heart_rate (JFloat high_threshold) of
        Inl e \<Rightarrow> (l1 @ l2, Inl e)
      | Inr True \<Rightarrow> (l1 @ l2 @ [Warning_High heart_rate], Inr ())
      | Inr False \<Rightarrow>
     (case py_lt heart_rate (JFloat low_threshold) of
        Inl e \<Rightarrow> (l1 @ l2, Inl e)
      | Inr True \<Rightarrow> (l1 @ l2 @ [Warning_Low heart_rate], Inr ())
      | Inr False \<Rightarrow> (l1 @ l2, Inr ())))))"

section \<open>Processing one message\<close>

text \<open>
  \<^verbatim>\<open>json.loads\<close> belongs to the standard library and is a parameter: the decoded value
  of a text, or the exception it raises. The body of the \<^verbatim>\<open>try\<close> returns the window as
  it is when the body ends, the events logged so far, and whether it raised.
\<close>

type_synonym loads = "string \<Rightarrow> error + json"

definition process_message_try ::
  "loads \<Rightarrow> rounding \<Rightarrow> environ \<Rightarrow> string \<Rightarrow> deque \<Rightarrow> int \<Rightarrow>
     deque \<times> log_event list \<times> (error + unit)" where
  "process_message_try json_loads rnd env message rolling_window window_size =
     (let l0 = [Debug_RawMessage message] in
      case json_loads message of
        Inl e \<Rightarrow> (rolling_window, l0, Inl e)
      | Inr data \<Rightarrow>
     (case py_get data ''heart_rate'' of
        Inl e \<Rightarrow> (rolling_window, l0, Inl e)
      | Inr heart_rate \<Rightarrow>
     (case py_get data ''timestamp'' of
        Inl e \<Rightarrow> (rolling_window, l0, Inl e)
      | Inr timestamp \<Rightarrow>
     (let l1 = l0 @ [Info_Processed data] in
      if heart_rate = JNull \<or> timestamp = JNull
      then (rolling_window, l1 @ [Error_InvalidFormat message], Inr ())
      else
     (case alert_on_heart_rate_anomaly env heart_rate of
        (la, Inl e) \<Rightarrow> (rolling_window, l1 @ la, Inl e)
      | (la, Inr u) \<Rightarrow>
     (let appended = deque_append rolling_window heart_rate in
      case detect_stall rnd env appended of
        (ld, Inl e) \<Rightarrow> (appended, l1 @ la @ ld, Inl e)
      | (ld, Inr stalled) \<Rightarrow>
          (appended,
           l1 @ la @ ld @
             (if stalled then [Info_StallDetected timestamp heart_rate window_size] else []),
           Inr ())))))))"

text \<open>
  The two handlers: \<^verbatim>\<open>except json.JSONDecodeError\<close>, then \<^verbatim>\<open>except Exception\<close>. Each
  logs one error event and the function returns; the window keeps what the body did
  to it before raising.
\<close>

definition process_message ::
  "loads \<Rightarrow> rounding \<Rightarrow> environ \<Rightarrow> string \<Rightarrow> deque \<Rightarrow> int \<Rightarrow> deque \<times> log_event list" where
  "process_message json_loads rnd env message rolling_window window_size =
     (case process_message_try json_loads rnd env message rolling_window window_size of
        (w, l, Inr u) \<Rightarrow> (w, l)
      | (w, l, Inl JSONDecodeError) \<Rightarrow> (w, l @ [Error_JSONDecoding message JSONDecodeError])
      | (w, l, Inl e) \<Rightarrow> (w, l @ [Error_Processing message e]))"

section \<open>The consumer loop\<close>

text \<open>
  The environment is outside the program and each getter reads it when it is called,
  so the feed pairs every delivered message with the environment as it is while that
  message is processed. \<^verbatim>\<open>main\<close> reads the window size once, builds the bounded
  deque (a negative \<^verbatim>\<open>maxlen\<close> raises \<^verbatim>\<open>ValueError\<close>) and processes the feed in order.
  The topic, the group id and the Kafka consumer are not modelled.
\<close>

fun consume ::
  "loads \<Rightarrow> rounding \<Rightarrow> (environ \<times> string) list \<Rightarrow> deque \<Rightarrow> int \<Rightarrow> deque \<times> log_event list" where
  "consume json_loads rnd [] rolling_window window_size = (rolling_window, [])"
| "consume json_loads rnd ((env, message) # feed) rolling_window window_size =
     (case process_message json_loads rnd env message rolling_window window_size of
        (w, l) \<Rightarrow>
          (case consume json_loads rnd feed w window_size of
             (w', l') \<Rightarrow> (w', l @ l')))"

definition main ::
  "loads \<Rightarrow> rounding \<Rightarrow> environ \<Rightarrow> (environ \<times> string) list \<Rightarrow> deque io" where
  "main json_loads rnd env0 feed =
     (case get_rolling_window_size env0 of
        (l0, Inl e) \<Rightarrow> (l0, Inl e)
      | (l0, Inr window_size) \<Rightarrow>
          if window_size < 0 then (l0 @ [Info_RollingWindowSize window_size], Inl ValueError)
          else
            (case consume json_loads rnd feed (deque_new (nat window_size)) window_size of
               (w, l) \<Rightarrow> (l0 @ [Info_RollingWindowSize window_size] @ l, Inr w)))"

section \<open>What the log shows, and fixtures for examples\<close>

text \<open>The alerts of a log are its warning events, the stalls its stall events.\<close>

fun is_warning :: "log_event \<Rightarrow> bool" where
  "is_warning (Warning_High v) = True"
| "is_warning (Warning_Low v) = True"
| "is_warning ev = False"

fun is_stall :: "log_event \<Rightarrow> bool" where
  "is_stall (Info_StallDetected ts v n) = True"
| "is_stall ev = False"

definition warnings :: "log_event list \<Rightarrow> log_event list" where
  "warnings l = filter is_warning l"

definition stalls :: "log_event list \<Rightarrow> log_event list" where
  "stalls l = filter is_stall l"

text \<open>
  The environment with none of the variables set, the payload of the module's
  docstring (\<^verbatim>\<open>{"timestamp": ts, "heart_rate": v}\<close>), a decoder given by the table of
  the texts it accepts, and a rounding given by the table of the reals it moves, for
  examples where every other real to round is a double already.
\<close>

definition default_environ :: environ where
  "default_environ =
     \<lparr>HEART_STALL_THRESHOLD_BPM = Unset, HEART_ROLLING_WINDOW_SIZE = Unset,
      HEART_RATE_THRESHOLD_HIGH = Unset, HEART_RATE_THRESHOLD_LOW = Unset\<rparr>"

text \<open>The configuration of the end-to-end scenario, every variable set.\<close>

definition scenario_environ :: environ where
  "scenario_environ =
     \<lparr>HEART_STALL_THRESHOLD_BPM = Parses (Fin 5), HEART_ROLLING_WINDOW_SIZE = Parses 5,
      HEART_RATE_THRESHOLD_HIGH = Parses (Fin 120), HEART_RATE_THRESHOLD_LOW = Parses (Fin 40)\<rparr>"

definition reading :: "string \<Rightarrow> json \<Rightarrow> json" where
  "reading ts v = JDict [(''timestamp'', JStr ts), (''heart_rate'', v)]"

definition table_loads :: "(string \<times> json) list \<Rightarrow> loads" where
  "table_loads tbl message =
     (case map_of tbl message of None \<Rightarrow> Inl JSONDecodeError | Some v \<Rightarrow> Inr v)"

definition table_round :: "(real \<times> real) list \<Rightarrow> rounding" where
  "table_round tbl x = (case map_of tbl x of None \<Rightarrow> x | Some y \<Rightarrow> y)"

text \<open>
  A reading of the scenario, sent as a JSON float (\<^verbatim>\<open>72.0\<close>) or as a JSON int
  (\<^verbatim>\<open>72\<close>).
\<close>

definition num_reading :: "bool \<Rightarrow> int \<Rightarrow> json" where
  "num_reading as_float_text n = (if as_float_text then JFloat (Fin (of_int n)) else JInt n)"

section \<open>Lemmas on the operators and the window\<close>

lemma py_max_loop_floats:
  "py_max_loop (JFloat (Fin a)) (map (JFloat \<circ> Fin) xs) = Inr (JFloat (Fin (fold max xs a)))"
  by (induction xs arbitrary: a) (simp_all add: py_gt_def max_def)

lemma py_min_loop_floats:
  "py_min_loop (JFloat (Fin a)) (map (JFloat \<circ> Fin) xs) = Inr (JFloat (Fin (fold min xs a)))"
  by (induction xs arbitrary: a) (simp_all add: py_lt_def min_def)

lemma py_max_floats:
  assumes "xs \<noteq> []"
  shows "py_max (map (JFloat \<circ> Fin) xs) = Inr (JFloat (Fin (Max (set xs))))"
proof (cases xs)
  case Nil
  then show ?thesis using assms by simp
next
  case (Cons a list)
  then show ?thesis
    using Max.set_eq_fold [of a list] py_max_loop_floats [of a list] by simp
qed

lemma py_min_floats:
  assumes "xs \<noteq> []"
  shows "py_min (map (JFloat \<circ> Fin) xs) = Inr (JFloat (Fin (Min (set xs))))"
proof (cases xs)
  case Nil
  then show ?thesis using assms by simp
next
  case (Cons a list)
  then show ?thesis
    using Min.set_eq_fold [of a list] py_min_loop_floats [of a list] by simp
qed

lemma py_sub_floats:
  "py_sub rnd (JFloat x) (JFloat y) = Inr (JFloat (float_sub rnd x y))"
  by (simp add: py_sub_def)

lemma detect_stall_full:
  assumes "get_rolling_window_size env = (l1, Inr n)"
    and "get_stall_threshold env = (l2, Inr t)"
    and "elems w = map (JFloat \<circ> Fin) xs" and "xs \<noteq> []" and "n \<le> int (length xs)"
  shows "detect_stall rnd env w =
    (l1 @ l2 @
       [Debug_Range (JFloat (round_double rnd (Max (set xs) - Min (set xs))))
          (fl_le (round_double rnd (Max (set xs) - Min (set xs))) t)],
     Inr (fl_le (round_double rnd (Max (set xs) - Min (set xs))) t))"
  using assms
  by (simp add: detect_stall_def py_max_floats py_min_floats py_sub_floats py_le_def)

lemma detect_stall_short:
  assumes "get_rolling_window_size env = (l1, Inr n)"
    and "int (length (elems w)) < n"
  shows "detect_stall rnd env w = (l1 @ [Debug_Waiting (length (elems w)) n], Inr False)"
  using assms by (simp add: detect_stall_def)

lemma elems_deque_append:
  "maxlen d = Some n \<Longrightarrow> elems (deque_append d x) =
     (if n < Suc (length (elems d)) then tl (elems d @ [x]) else elems d @ [x])"
  by (simp add: deque_append_def Let_def)

lemma maxlen_deque_append: "maxlen (deque_append d x) = maxlen d"
  by (simp add: deque_append_def Let_def split: option.splits)

lemma elems_deque_append_drop:
  assumes "maxlen d = Some n" and "length (elems d) \<le> n"
  shows "elems (deque_append d x) = drop (Suc (length (elems d)) - n) (elems d @ [x])"
proof (cases "length (elems d) = n")
  case True
  have tl_drop1: "tl ys = drop 1 ys" for ys :: "json list"
    by (simp add: drop_Suc)
  have "tl (elems d @ [x]) = drop 1 (elems d @ [x])"
    by (rule tl_drop1)
  moreover have "Suc (length (elems d)) - n = 1"
    using True by simp
  moreover have "elems (deque_append d x) = tl (elems d @ [x])"
    using assms True by (simp add: elems_deque_append)
  ultimately show ?thesis by simp
next
  case False
  then have "length (elems d) < n" using assms by simp
  then show ?thesis
    using assms by (simp add: elems_deque_append)
qed

lemma pushes_elems:
  "maxlen d = Some n \<Longrightarrow> length (elems d) \<le> n \<Longrightarrow>
   elems (foldl deque_append d vs) = drop (length (elems d) + length vs - n) (elems d @ vs)"
proof (induction vs arbitrary: d)
  case Nil
  then show ?case by simp
next
  case (Cons v vs)
  let ?d = "deque_append d v"
  let ?b = "Suc (length (elems d)) - n"
  have m: "maxlen ?d = Some n"
    using Cons.prems by (simp add: maxlen_deque_append)
  have e: "elems ?d = drop ?b (elems d @ [v])"
    using Cons.prems by (rule elems_deque_append_drop)
  have l: "length (elems ?d) \<le> n"
    using Cons.prems by (simp add: e)
  have b: "?b \<le> length (elems d @ [v])"
    by simp
  have "elems (foldl deque_append ?d vs) = drop (length (elems ?d) + length vs - n) (elems ?d @ vs)"
    using m l by (rule Cons.IH)
  also have "elems ?d @ vs = drop ?b ((elems d @ [v]) @ vs)"
    using b by (simp only: e drop_append) simp
  also have "drop (length (elems ?d) + length vs - n) (drop ?b ((elems d @ [v]) @ vs))
      = drop (length (elems ?d) + length vs - n + ?b) ((elems d @ [v]) @ vs)"
    by (simp only: drop_drop)
  also have "length (elems ?d) + length vs - n + ?b = length (elems d) + length (v # vs) - n"
    using Cons.prems by (simp add: e)
  finally show ?case by simp
qed

lemma pushes_new:
  "elems (foldl deque_append (deque_new n) vs) = drop (length vs - n) vs"
  using pushes_elems [of "deque_new n" n vs] by (simp add: deque_new_def)

lemma maxlen_pushes: "maxlen (foldl deque_append d vs) = maxlen d"
  by (induction vs arbitrary: d) (simp_all add: maxlen_deque_append)

lemma process_message_window:
  "fst (process_message json_loads rnd env message w ws) = w \<or>
   (\<exists>v. fst (process_message json_loads rnd env message w ws) = deque_append w v)"
  by (auto simp add: process_message_def process_message_try_def Let_def
      split: sum.splits prod.splits error.splits)

lemma deque_append_bounded:
  assumes "maxlen d = Some n" and "length (elems d) \<le> n"
  shows "maxlen (deque_append d x) = Some n \<and> length (elems (deque_append d x)) \<le> n"
  using assms by (simp add: maxlen_deque_append elems_deque_append_drop)

lemma process_message_bounded:
  assumes "maxlen w = Some n" and "length (elems w) \<le> n"
  shows "maxlen (fst (process_message json_loads rnd env message w ws)) = Some n \<and>
         length (elems (fst (process_message json_loads rnd env message w ws))) \<le> n"
  using process_message_window [of json_loads rnd env message w ws] assms deque_append_bounded [OF assms]
  by auto

lemma fst_consume_Cons:
  "fst (consume json_loads rnd ((env, message) # feed) w ws) =
   fst (consume json_loads rnd feed (fst (process_message json_loads rnd env message w ws)) ws)"
  by (simp split: prod.splits)

lemma consume_bounded:
  "maxlen w = Some n \<Longrightarrow> length (elems w) \<le> n \<Longrightarrow>
   maxlen (fst (consume json_loads rnd feed w ws)) = Some n \<and>
   length (elems (fst (consume json_loads rnd feed w ws))) \<le> n"
proof (induction feed arbitrary: w)
  case Nil
  then show ?case by simp
next
  case (Cons p feed)
  obtain env message where p: "p = (env, message)" by (cases p)
  let ?w = "fst (process_message json_loads rnd env message w ws)"
  have "maxlen ?w = Some n \<and> length (elems ?w) \<le> n"
    using Cons.prems by (rule process_message_bounded)
  then have "maxlen (fst (consume json_loads rnd feed ?w ws)) = Some n \<and>
     length (elems (fst (consume json_loads rnd feed ?w ws))) \<le> n"
    using Cons.IH by blast
  then show ?case
    by (simp only: p fst_consume_Cons)
qed

lemma get_rolling_window_size_cases:
  "snd (get_rolling_window_size env) = Inr n \<Longrightarrow>
   get_rolling_window_size env = ([Info_RollingWindowSize n], Inr n)"
  by (auto simp add: get_rolling_window_size_def split: entry.splits)

lemma get_stall_threshold_cases:
  "snd (get_stall_threshold env) = Inr t \<Longrightarrow>
   get_stall_threshold env = ([Info_StallThreshold t], Inr t)"
  by (auto simp add: get_stall_threshold_def split: entry.splits)

lemma get_heart_rate_threshold_high_cases:
  "snd (get_heart_rate_threshold_high env) = Inr h \<Longrightarrow>
   get_heart_rate_threshold_high env = ([Info_ThresholdHigh h], Inr h)"
  by (auto simp add: get_heart_rate_threshold_high_def split: entry.splits)

lemma get_heart_rate_threshold_low_cases:
  "snd (get_heart_rate_threshold_low env) = Inr l \<Longrightarrow>
   get_heart_rate_threshold_low env = ([Info_ThresholdLow l], Inr l)"
  by (auto simp add: get_heart_rate_threshold_low_def split: entry.splits)

lemma alert_numeric:
  assumes "snd (get_heart_rate_threshold_high env) = Inr high"
    and "snd (get_heart_rate_threshold_low env) = Inr low"
    and "num_of hr = Some v"
  shows "alert_on_heart_rate_anomaly env hr =
     ([Info_ThresholdHigh high, Info_ThresholdLow low] @
        (if fl_lt high v then [Warning_High hr]
         else if fl_lt v low then [Warning_Low hr] else []),
      Inr ())"
  using get_heart_rate_threshold_high_cases [OF assms(1)]
    get_heart_rate_threshold_low_cases [OF assms(2)] assms(3)
  by (simp add: alert_on_heart_rate_anomaly_def py_gt_def py_lt_def)

lemma warnings_alert_numeric:
  assumes "snd (get_heart_rate_threshold_high env) = Inr high"
    and "snd (get_heart_rate_threshold_low env) = Inr low"
    and "num_of hr = Some v"
  shows "warnings (fst (alert_on_heart_rate_anomaly env hr)) =
     (if fl_lt high v then [Warning_High hr]
      else if fl_lt v low then [Warning_Low hr] else [])"
  by (simp add: alert_numeric [OF assms] warnings_def)

lemma numeric_num_of: "numeric v = (num_of v \<noteq> None)"
  by (cases v) simp_all

lemma fl_lt_le_trans: "fl_lt v low \<Longrightarrow> fl_le low high \<Longrightarrow> \<not> fl_lt high v"
  by (cases v; cases low; cases high) simp_all

lemma dbl_overflow_large: "10 ^ 300 < dbl_overflow"
  by (simp add: dbl_overflow_def)

lemma round_double_small:
  assumes "\<bar>x\<bar> \<le> 10 ^ 300"
  shows "round_double rnd x =
     (if of_int \<lfloor>x\<rfloor> = x \<and> \<bar>x\<bar> \<le> 2 ^ 53 then Fin x else Fin (rnd x))"
  using assms dbl_overflow_large by (simp add: round_double_def abs_le_iff)



section \<open>Lemmas on processing one message\<close>

lemma fst_process_message:
  "fst (process_message json_loads rnd env message w ws) =
   fst (process_message_try json_loads rnd env message w ws)"
  by (simp add: process_message_def split: prod.splits sum.splits error.splits)

lemma process_message_raised:
  assumes "snd (snd (process_message_try json_loads rnd env message w ws)) = Inl e"
  shows "snd (process_message json_loads rnd env message w ws) =
     fst (snd (process_message_try json_loads rnd env message w ws)) @
       [if e = JSONDecodeError then Error_JSONDecoding message e else Error_Processing message e]"
proof -
  obtain w' l r where t: "process_message_try json_loads rnd env message w ws = (w', l, r)"
    by (cases "process_message_try json_loads rnd env message w ws") auto
  then have "r = Inl e" using assms by simp
  then show ?thesis
    by (cases e) (simp_all add: process_message_def t)
qed

lemma try_decode_error:
  "json_loads message = Inl e \<Longrightarrow>
   process_message_try json_loads rnd env message w ws = (w, [Debug_RawMessage message], Inl e)"
  by (simp add: process_message_try_def)

lemma try_not_dict:
  "json_loads message = Inr data \<Longrightarrow> py_get data ''heart_rate'' = Inl e \<Longrightarrow>
   process_message_try json_loads rnd env message w ws = (w, [Debug_RawMessage message], Inl e)"
  by (simp add: process_message_try_def)

lemma py_get_same_error:
  "py_get data k = Inr v \<Longrightarrow> \<exists>v'. py_get data k' = Inr v'"
  by (cases data) (simp_all split: option.splits)

lemma try_missing_field:
  assumes "json_loads message = Inr data"
    and "py_get data ''heart_rate'' = Inr JNull \<or> py_get data ''timestamp'' = Inr JNull"
  shows "process_message_try json_loads rnd env message w ws =
     (w, [Debug_RawMessage message, Info_Processed data, Error_InvalidFormat message], Inr ())"
proof -
  obtain hr ts where "py_get data ''heart_rate'' = Inr hr" and "py_get data ''timestamp'' = Inr ts"
    using assms(2) py_get_same_error by blast
  then show ?thesis
    using assms by (auto simp add: process_message_try_def)
qed


lemma alert_returns_numeric:
  "alert_on_heart_rate_anomaly env hr = (la, Inr u) \<Longrightarrow> numeric hr"
  by (auto simp add: alert_on_heart_rate_anomaly_def py_gt_def py_lt_def numeric_num_of
      split: prod.splits sum.splits option.splits bool.splits if_splits)

lemma try_cases:
  assumes "process_message_try json_loads rnd env message w ws = (w', l, r)"
  shows "w' = w \<or>
    (\<exists>data hr la u. json_loads message = Inr data \<and> py_get data ''heart_rate'' = Inr hr \<and>
       alert_on_heart_rate_anomaly env hr = (la, Inr u) \<and> w' = deque_append w hr \<and>
       (\<forall>e. r = Inl e \<longrightarrow> snd (detect_stall rnd env (deque_append w hr)) = Inl e))"
  using assms
  by (auto simp add: process_message_try_def Let_def
      split: sum.splits prod.splits if_splits)


lemma deque_append_numeric:
  assumes "list_all numeric (elems d)" and "numeric x"
  shows "list_all numeric (elems (deque_append d x))"
proof -
  have "list_all numeric (elems d @ [x])"
    using assms by simp
  moreover have "list_all numeric (tl (elems d @ [x]))"
    using assms by (cases "elems d") simp_all
  ultimately show ?thesis
    by (simp add: deque_append_def Let_def split: option.splits)
qed

lemma num_of_not_null: "num_of hr = Some v \<Longrightarrow> hr \<noteq> JNull"
  by auto

lemma try_reading:
  assumes "json_loads message = Inr data"
    and "py_get data ''heart_rate'' = Inr hr" and "num_of hr = Some v"
    and "py_get data ''timestamp'' = Inr ts" and "ts \<noteq> JNull"
    and "snd (get_heart_rate_threshold_high env) = Inr high"
    and "snd (get_heart_rate_threshold_low env) = Inr low"
    and "detect_stall rnd env (deque_append w hr) = (ld, r)"
  shows "process_message_try json_loads rnd env message w ws =
     (deque_append w hr,
      [Debug_RawMessage message, Info_Processed data, Info_ThresholdHigh high, Info_ThresholdLow low] @
      (if fl_lt high v then [Warning_High hr]
       else if fl_lt v low then [Warning_Low hr] else []) @
      ld @ (if r = Inr True then [Info_StallDetected ts hr ws] else []),
      (case r of Inl e \<Rightarrow> Inl e | Inr b \<Rightarrow> Inr ()))"
  using assms(1,2,4,5,8) num_of_not_null [OF assms(3)]
  by (cases r) (simp_all add: process_message_try_def alert_numeric [OF assms(6,7,3)])

lemma process_message_reading:
  assumes "json_loads message = Inr data"
    and "py_get data ''heart_rate'' = Inr hr" and "num_of hr = Some v"
    and "py_get data ''timestamp'' = Inr ts" and "ts \<noteq> JNull"
    and "snd (get_heart_rate_threshold_high env) = Inr high"
    and "snd (get_heart_rate_threshold_low env) = Inr low"
    and "detect_stall rnd env (deque_append w hr) = (ld, Inr stalled)"
  shows "process_message json_loads rnd env message w ws =
     (deque_append w hr,
      [Debug_RawMessage message, Info_Processed data, Info_ThresholdHigh high, Info_ThresholdLow low] @
      (if fl_lt high v then [Warning_High hr]
       else if fl_lt v low then [Warning_Low hr] else []) @
      ld @ (if stalled then [Info_StallDetected ts hr ws] else []))"
  using assms
    try_reading [of json_loads message data hr v ts env high low rnd w ld "Inr stalled" ws]
  by (simp add: process_message_def)

lemma num_of_num_reading: "num_of (num_reading fl n) = Some (Fin (of_int n))"
  by (simp add: num_reading_def)

lemma scenario_getters:
  "snd (get_heart_rate_threshold_high scenario_environ) = Inr (Fin 120)"
  "snd (get_heart_rate_threshold_low scenario_environ) = Inr (Fin 40)"
  "get_rolling_window_size scenario_environ = ([Info_RollingWindowSize 5], Inr 5)"
  "get_stall_threshold scenario_environ = ([Info_StallThreshold (Fin 5)], Inr (Fin 5))"
  by (simp_all add: scenario_environ_def get_heart_rate_threshold_high_def
      get_heart_rate_threshold_low_def get_rolling_window_size_def get_stall_threshold_def)

lemma scenario_step:
  assumes "json_loads message = Inr (reading t (num_reading fl n))"
    and "detect_stall rnd scenario_environ (deque_append w (num_reading fl n)) = (ld, Inr stalled)"
  shows "process_message json_loads rnd scenario_environ message w 5 =
     (deque_append w (num_reading fl n),
      [Debug_RawMessage message, Info_Processed (reading t (num_reading fl n)),
       Info_ThresholdHigh (Fin 120), Info_ThresholdLow (Fin 40)] @
      (if 120 < n then [Warning_High (num_reading fl n)]
       else if n < 40 then [Warning_Low (num_reading fl n)] else []) @
      ld @ (if stalled then [Info_StallDetected (JStr t) (num_reading fl n) 5] else []))"
  using assms scenario_getters(1,2) num_of_num_reading [of fl n]
    process_message_reading [of json_loads message "reading t (num_reading fl n)"
      "num_reading fl n" "Fin (of_int n)" "JStr t" scenario_environ "Fin 120" "Fin 40"
      rnd w ld stalled 5]
  by (simp add: reading_def)

lemma scenario_waiting:
  assumes "length (elems w) < 5"
  shows "detect_stall rnd scenario_environ w =
     ([Info_RollingWindowSize 5, Debug_Waiting (length (elems w)) 5], Inr False)"
  using detect_stall_short [OF scenario_getters(3), of w rnd] assms by simp

lemma scenario_stalled:
  "detect_stall rnd scenario_environ
      \<lparr>elems = map (num_reading fl) [70, 71, 72, 70, 71], maxlen = Some 5\<rparr> =
     ([Info_RollingWindowSize 5, Info_StallThreshold (Fin 5), Debug_Range (num_reading fl 2) True],
      Inr True)"
  by (cases fl)
    (simp_all add: detect_stall_def scenario_getters num_reading_def py_gt_def py_lt_def
      py_le_def py_sub_def round_double_small)

lemma scenario_stable:
  "detect_stall rnd scenario_environ
      \<lparr>elems = map (num_reading fl) [71, 72, 70, 71, 130], maxlen = Some 5\<rparr> =
     ([Info_RollingWindowSize 5, Info_StallThreshold (Fin 5), Debug_Range (num_reading fl 60) False],
      Inr False)"
  by (cases fl)
    (simp_all add: detect_stall_def scenario_getters num_reading_def py_gt_def py_lt_def
      py_le_def py_sub_def round_double_small)

lemma main_maxlen:
  assumes "snd (main json_loads rnd env0 feed) = Inr w'"
  shows "\<exists>N0. snd (get_rolling_window_size env0) = Inr N0 \<and> 0 \<le> N0 \<and> maxlen w' = Some (nat N0)"
proof -
  obtain l0 r where g: "get_rolling_window_size env0 = (l0, r)"
    by (cases "get_rolling_window_size env0") auto
  show ?thesis
  proof (cases r)
    case (Inl e)
    then show ?thesis using assms g by (simp add: main_def)
  next
    case (Inr N0)
    show ?thesis
    proof (cases "N0 < 0")
      case True
      then show ?thesis using assms g Inr by (simp add: main_def)
    next
      case False
      have "maxlen (fst (consume json_loads rnd feed (deque_new (nat N0)) N0)) = Some (nat N0)"
        using consume_bounded [of "deque_new (nat N0)" "nat N0" json_loads rnd feed N0]
        by (simp add: deque_new_def)
      moreover have "w' = fst (consume json_loads rnd feed (deque_new (nat N0)) N0)"
        using assms g Inr False by (simp add: main_def split: prod.splits)
      ultimately show ?thesis using g Inr False by simp
    qed
  qed
qed

lemma main_startup_thresholds:
  "main json_loads rnd
     (env0\<lparr>HEART_RATE_THRESHOLD_HIGH := a, HEART_RATE_THRESHOLD_LOW := b,
           HEART_STALL_THRESHOLD_BPM := c\<rparr>) [] =
   main json_loads rnd env0 []"
  by (simp add: main_def get_rolling_window_size_def)

lemma process_message_not_validated:
  assumes "json_loads message = Inl e \<or>
    (json_loads message = Inr data \<and>
       (py_get data ''heart_rate'' = Inl AttributeError \<or>
        py_get data ''heart_rate'' = Inr JNull \<or> py_get data ''timestamp'' = Inr JNull))"
  shows "process_message json_loads rnd env' message w ws =
         process_message json_loads rnd env message w ws"
proof -
  consider (a) "json_loads message = Inl e"
    | (b) "json_loads message = Inr data" "py_get data ''heart_rate'' = Inl AttributeError"
    | (c) "json_loads message = Inr data"
          "py_get data ''heart_rate'' = Inr JNull \<or> py_get data ''timestamp'' = Inr JNull"
    using assms by blast
  then show ?thesis
  proof cases
    case a
    then show ?thesis by (simp add: process_message_def try_decode_error)
  next
    case b
    then show ?thesis by (simp add: process_message_def try_not_dict)
  next
    case c
    then show ?thesis by (simp add: process_message_def try_missing_field)
  qed
qed

lemma validated_high_malformed:
  assumes "json_loads message = Inr data"
    and "py_get data ''heart_rate'' = Inr hr" and "hr \<noteq> JNull"
    and "py_get data ''timestamp'' = Inr ts" and "ts \<noteq> JNull"
    and "HEART_RATE_THRESHOLD_HIGH env = Malformed"
  shows "process_message json_loads rnd env message w ws =
     (w, [Debug_RawMessage message, Info_Processed data, Error_Processing message ValueError])"
  using assms
  by (simp add: process_message_def process_message_try_def alert_on_heart_rate_anomaly_def
      get_heart_rate_threshold_high_def)

lemma validated_low_malformed:
  assumes "json_loads message = Inr data"
    and "py_get data ''heart_rate'' = Inr hr" and "hr \<noteq> JNull"
    and "py_get data ''timestamp'' = Inr ts" and "ts \<noteq> JNull"
    and "snd (get_heart_rate_threshold_high env) = Inr high"
    and "HEART_RATE_THRESHOLD_LOW env = Malformed"
  shows "process_message json_loads rnd env message w ws =
     (w, [Debug_RawMessage message, Info_Processed data, Info_ThresholdHigh high,
          Error_Processing message ValueError])"
  using assms(1-5,7) get_heart_rate_threshold_high_cases [OF assms(6)]
  by (simp add: process_message_def process_message_try_def alert_on_heart_rate_anomaly_def
      get_heart_rate_threshold_low_def)

lemma alert_log_prefix:
  assumes "snd (get_heart_rate_threshold_high env) = Inr high"
    and "snd (get_heart_rate_threshold_low env) = Inr low"
  shows "\<exists>rest. fst (alert_on_heart_rate_anomaly env hr) =
     [Info_ThresholdHigh high, Info_ThresholdLow low] @ rest"
  using get_heart_rate_threshold_high_cases [OF assms(1)]
    get_heart_rate_threshold_low_cases [OF assms(2)]
  by (simp add: alert_on_heart_rate_anomaly_def split: sum.splits bool.splits)

lemma process_message_log_extends:
  "\<exists>x. snd (process_message json_loads rnd env message w ws) =
     fst (snd (process_message_try json_loads rnd env message w ws)) @ x"
proof -
  obtain w' l r where t: "process_message_try json_loads rnd env message w ws = (w', l, r)"
    by (cases "process_message_try json_loads rnd env message w ws") auto
  show ?thesis
  proof (cases r)
    case (Inl e)
    then show ?thesis by (cases e) (simp_all add: process_message_def t)
  next
    case (Inr u)
    then show ?thesis by (simp add: process_message_def t)
  qed
qed

lemma validated_log_prefix:
  assumes "json_loads message = Inr data"
    and "py_get data ''heart_rate'' = Inr hr" and "hr \<noteq> JNull"
    and "py_get data ''timestamp'' = Inr ts" and "ts \<noteq> JNull"
    and "snd (get_heart_rate_threshold_high env) = Inr high"
    and "snd (get_heart_rate_threshold_low env) = Inr low"
  shows "\<exists>rest. snd (process_message json_loads rnd env message w ws) =
     [Debug_RawMessage message, Info_Processed data, Info_ThresholdHigh high, Info_ThresholdLow low] @ rest"
proof -
  let ?P = "[Debug_RawMessage message, Info_Processed data, Info_ThresholdHigh high, Info_ThresholdLow low]"
  obtain rest where a: "fst (alert_on_heart_rate_anomaly env hr) =
      [Info_ThresholdHigh high, Info_ThresholdLow low] @ rest"
    using alert_log_prefix [OF assms(6,7)] by blast
  obtain la ra where b: "alert_on_heart_rate_anomaly env hr = (la, ra)"
    by (cases "alert_on_heart_rate_anomaly env hr") auto
  have la: "la = [Info_ThresholdHigh high, Info_ThresholdLow low] @ rest"
    using a b by simp
  obtain ld rd where d: "detect_stall rnd env (deque_append w hr) = (ld, rd)"
    by (cases "detect_stall rnd env (deque_append w hr)") auto
  have "\<exists>y. fst (snd (process_message_try json_loads rnd env message w ws)) = ?P @ y"
    using assms(1-5) b d
    by (cases ra; cases rd) (simp_all add: process_message_try_def la)
  then obtain y where y: "fst (snd (process_message_try json_loads rnd env message w ws)) = ?P @ y"
    by blast
  obtain x where "snd (process_message json_loads rnd env message w ws) =
      fst (snd (process_message_try json_loads rnd env message w ws)) @ x"
    using process_message_log_extends by blast
  then have "snd (process_message json_loads rnd env message w ws) = ?P @ (y @ x)"
    by (simp only: y append_assoc)
  then show ?thesis by blast
qed

lemma detect_stall_no_alerts:
  "warnings (fst (detect_stall rnd env w)) = [] \<and> stalls (fst (detect_stall rnd env w)) = []"
  by (auto simp add: detect_stall_def warnings_def stalls_def get_rolling_window_size_def
      get_stall_threshold_def split: entry.splits sum.splits)

lemma detect_stall_log_size:
  assumes "snd (get_rolling_window_size env) = Inr N"
  shows "Info_RollingWindowSize N \<in> set (fst (detect_stall rnd env w))"
  using get_rolling_window_size_cases [OF assms]
  by (auto simp add: detect_stall_def split: sum.splits prod.splits)

lemma process_message_of_try:
  assumes "process_message_try json_loads rnd env message w ws = (w', l, r)"
  shows "process_message json_loads rnd env message w ws =
     (w', l @ (case r of Inr u \<Rightarrow> []
               | Inl e \<Rightarrow> [if e = JSONDecodeError then Error_JSONDecoding message e
                           else Error_Processing message e]))"
proof (cases r)
  case (Inl e)
  then show ?thesis by (cases e) (simp_all add: process_message_def assms)
next
  case (Inr u)
  then show ?thesis by (simp add: process_message_def assms)
qed

lemma process_message_numeric:
  assumes "json_loads message = Inr data"
    and "py_get data ''heart_rate'' = Inr hr" and "num_of hr = Some v"
    and "py_get data ''timestamp'' = Inr ts" and "ts \<noteq> JNull"
    and "snd (get_heart_rate_threshold_high env) = Inr high"
    and "snd (get_heart_rate_threshold_low env) = Inr low"
    and "detect_stall rnd env (deque_append w hr) = (ld, r)"
  shows "process_message json_loads rnd env message w ws =
     (deque_append w hr,
      [Debug_RawMessage message, Info_Processed data, Info_ThresholdHigh high, Info_ThresholdLow low] @
      (if fl_lt high v then [Warning_High hr]
       else if fl_lt v low then [Warning_Low hr] else []) @
      ld @ (if r = Inr True then [Info_StallDetected ts hr ws] else []) @
      (case r of Inr b \<Rightarrow> []
       | Inl e \<Rightarrow> [if e = JSONDecodeError then Error_JSONDecoding message e
                   else Error_Processing message e]))"
  using process_message_of_try
    [OF try_reading [of json_loads message data hr v ts env high low rnd w ld r ws, OF assms]]
  by (cases r) simp_all

lemma reading_effect:
  assumes "json_loads message = Inr data"
    and "py_get data ''heart_rate'' = Inr hr" and "num_of hr = Some v"
    and "py_get data ''timestamp'' = Inr ts" and "ts \<noteq> JNull"
    and "snd (get_heart_rate_threshold_high env) = Inr high"
    and "snd (get_heart_rate_threshold_low env) = Inr low"
  shows "fst (process_message json_loads rnd env message w ws) = deque_append w hr \<and>
     maxlen (fst (process_message json_loads rnd env message w ws)) = maxlen w \<and>
     warnings (snd (process_message json_loads rnd env message w ws)) =
       (if fl_lt high v then [Warning_High hr]
        else if fl_lt v low then [Warning_Low hr] else [])"
proof -
  obtain ld r where d: "detect_stall rnd env (deque_append w hr) = (ld, r)"
    by (cases "detect_stall rnd env (deque_append w hr)") auto
  have n: "warnings ld = []"
    using detect_stall_no_alerts [of rnd env "deque_append w hr"] d by simp
  note p = process_message_numeric [of json_loads message, OF assms d]
  have "warnings (snd (process_message json_loads rnd env message w ws)) =
       (if fl_lt high v then [Warning_High hr]
        else if fl_lt v low then [Warning_Low hr] else [])"
    using n by (cases r) (simp_all add: p warnings_def)
  then show ?thesis
    by (simp add: p maxlen_deque_append)
qed

lemma reading_window_size_logged:
  assumes "json_loads message = Inr data"
    and "py_get data ''heart_rate'' = Inr hr" and "num_of hr = Some v"
    and "py_get data ''timestamp'' = Inr ts" and "ts \<noteq> JNull"
    and "snd (get_heart_rate_threshold_high env) = Inr high"
    and "snd (get_heart_rate_threshold_low env) = Inr low"
    and "snd (get_rolling_window_size env) = Inr N"
  shows "Info_RollingWindowSize N \<in> set (snd (process_message json_loads rnd env message w ws))"
proof -
  obtain ld r where d: "detect_stall rnd env (deque_append w hr) = (ld, r)"
    by (cases "detect_stall rnd env (deque_append w hr)") auto
  have "Info_RollingWindowSize N \<in> set ld"
    using detect_stall_log_size [OF assms(8), of rnd "deque_append w hr"] d by simp
  then show ?thesis
    by (simp add: process_message_numeric [of json_loads message, OF assms(1-7) d])
qed

lemma reading_warmup:
  assumes "json_loads message = Inr data"
    and "py_get data ''heart_rate'' = Inr hr" and "num_of hr = Some v"
    and "py_get data ''timestamp'' = Inr ts" and "ts \<noteq> JNull"
    and "snd (get_heart_rate_threshold_high env) = Inr high"
    and "snd (get_heart_rate_threshold_low env) = Inr low"
    and "snd (get_rolling_window_size env) = Inr N"
    and "int (length (elems (deque_append w hr))) < N"
  shows "process_message json_loads rnd (env\<lparr>HEART_STALL_THRESHOLD_BPM := th\<rparr>) message w ws =
         process_message json_loads rnd env message w ws"
proof -
  let ?env = "env\<lparr>HEART_STALL_THRESHOLD_BPM := th\<rparr>"
  let ?ld = "[Info_RollingWindowSize N, Debug_Waiting (length (elems (deque_append w hr))) N]"
  have h: "snd (get_heart_rate_threshold_high ?env) = Inr high"
    using assms(6) by (simp add: get_heart_rate_threshold_high_def)
  have l: "snd (get_heart_rate_threshold_low ?env) = Inr low"
    using assms(7) by (simp add: get_heart_rate_threshold_low_def)
  have s: "get_rolling_window_size ?env = ([Info_RollingWindowSize N], Inr N)"
    using get_rolling_window_size_cases [OF assms(8)] by (simp add: get_rolling_window_size_def)
  have d: "detect_stall rnd env (deque_append w hr) = (?ld, Inr False)"
    using detect_stall_short [OF get_rolling_window_size_cases [OF assms(8)] assms(9)] by simp
  have d': "detect_stall rnd ?env (deque_append w hr) = (?ld, Inr False)"
    using detect_stall_short [OF s assms(9)] by simp
  show ?thesis
    by (simp only: process_message_numeric [of json_loads message, OF assms(1-7) d]
        process_message_numeric [of json_loads message, OF assms(1-5) h l d'])
qed

lemma reading_full:
  assumes "json_loads message = Inr data"
    and "py_get data ''heart_rate'' = Inr hr" and "num_of hr = Some v"
    and "py_get data ''timestamp'' = Inr ts" and "ts \<noteq> JNull"
    and "snd (get_heart_rate_threshold_high env) = Inr high"
    and "snd (get_heart_rate_threshold_low env) = Inr low"
    and "snd (get_rolling_window_size env) = Inr N"
    and "elems (deque_append w hr) = map (JFloat \<circ> Fin) ys" and "ys \<noteq> []"
    and "N \<le> int (length ys)"
    and "snd (get_stall_threshold env) = Inr t"
  shows "Info_StallThreshold t \<in> set (snd (process_message json_loads rnd env message w ws)) \<and>
     stalls (snd (process_message json_loads rnd env message w ws)) =
       (if fl_le (round_double rnd (Max (set ys) - Min (set ys))) t
        then [Info_StallDetected ts hr ws] else [])"
proof -
  note d = detect_stall_full [OF get_rolling_window_size_cases [OF assms(8)]
      get_stall_threshold_cases [OF assms(12)] assms(9,10,11), of rnd]
  show ?thesis
    by (simp add: process_message_numeric [of json_loads message, OF assms(1-7) d] stalls_def)
qed

section \<open>The claims\<close>

text \<open>
  C2, window capacity. Whatever values are pushed into a new window of capacity \<open>N\<close>,
  in whatever number, the window then holds \<open>min (length vs) N\<close> of them: never more than
  \<open>N\<close>, and exactly \<open>N\<close> from the \<open>N\<close>-th push on. A push into a window that is not
  full adds the value on the right; a push into a full window also drops the oldest
  value. The window that the consumer loop builds and feeds through
  \<open>process_message\<close> never holds more than \<open>N\<close> values either.
\<close>

theorem window_capacity_invariant:
  "length (elems (foldl deque_append (deque_new N) vs)) = min (length vs) N \<and>
   elems (foldl deque_append (deque_new N) (vs @ [v])) =
     (if length vs < N then elems (foldl deque_append (deque_new N) vs) @ [v]
      else tl (elems (foldl deque_append (deque_new N) vs) @ [v])) \<and>
   length (elems (fst (consume json_loads rnd feed (deque_new N) window_size))) \<le> N"
proof -
  let ?d = "foldl deque_append (deque_new N) vs"
  have size: "length (elems ?d) = min (length vs) N"
    by (simp add: pushes_new)
  have m: "maxlen ?d = Some N"
    by (simp add: maxlen_pushes deque_new_def)
  have "elems (deque_append ?d v) =
      (if length vs < N then elems ?d @ [v] else tl (elems ?d @ [v]))"
    using size by (simp add: elems_deque_append [OF m])
  moreover have "length (elems (fst (consume json_loads rnd feed (deque_new N) window_size))) \<le> N"
    using consume_bounded [of "deque_new N" N json_loads rnd feed window_size]
    by (simp add: deque_new_def)
  ultimately show ?thesis
    using size by simp
qed

text \<open>
  C7, FIFO eviction. Pushing \<open>N + 1\<close> values into a new window of capacity \<open>N\<close> leaves
  all of them but the first, in the order of arrival.
\<close>

theorem fifo_eviction:
  "length vs = Suc N \<Longrightarrow> elems (foldl deque_append (deque_new N) vs) = tl vs"
  by (simp add: pushes_new drop_Suc)

theorem fifo_eviction_witness:
  "length [JInt 1, JInt 2, JInt 3, JInt 4] = Suc 3 \<and>
   elems (foldl deque_append (deque_new 3) [JInt 1, JInt 2, JInt 3, JInt 4]) = [JInt 2, JInt 3, JInt 4]"
  using fifo_eviction [of "[JInt 1, JInt 2, JInt 3, JInt 4]" 3] by simp




text \<open>
  C4, insufficient data. When the window holds fewer readings than the window size
  the environment gives, \<open>detect_stall\<close> logs that it is waiting and returns \<^verbatim>\<open>False\<close>,
  whatever the stall threshold is, also one that does not parse: the threshold is not
  read.
\<close>

theorem insufficient_data:
  assumes "snd (get_rolling_window_size env) = Inr N"
    and "int (length (elems w)) < N"
  shows "detect_stall rnd (env\<lparr>HEART_STALL_THRESHOLD_BPM := th\<rparr>) w =
           ([Info_RollingWindowSize N, Debug_Waiting (length (elems w)) N], Inr False)"
proof -
  have "get_rolling_window_size (env\<lparr>HEART_STALL_THRESHOLD_BPM := th\<rparr>) =
      ([Info_RollingWindowSize N], Inr N)"
    using get_rolling_window_size_cases [OF assms(1)]
    by (simp add: get_rolling_window_size_def)
  then show ?thesis
    using assms(2) by (simp add: detect_stall_short)
qed

theorem insufficient_data_witness:
  "detect_stall (table_round []) (default_environ\<lparr>HEART_STALL_THRESHOLD_BPM := Malformed\<rparr>)
      \<lparr>elems = [JFloat (Fin 70), JFloat (Fin 190)], maxlen = Some 5\<rparr> =
     ([Info_RollingWindowSize 5, Debug_Waiting 2 5], Inr False)"
proof -
  have s: "snd (get_rolling_window_size default_environ) = Inr 5"
    by (simp add: get_rolling_window_size_def default_environ_def)
  show ?thesis
    using insufficient_data [OF s,
        of "\<lparr>elems = [JFloat (Fin 70), JFloat (Fin 190)], maxlen = Some 5\<rparr>" "table_round []" Malformed]
    by simp
qed

text \<open>
  \<^verbatim>\<open>False\<close> is also what a full window with a range above the threshold returns: the
  returned value does not tell a window that is still filling from a full one that is
  not stalled.
\<close>

theorem insufficient_data_returns_false_like_stable:
  "snd (detect_stall (table_round []) default_environ
      \<lparr>elems = map (JFloat \<circ> Fin) [70, 71], maxlen = Some 5\<rparr>) = Inr False \<and>
   snd (detect_stall (table_round []) default_environ
      \<lparr>elems = map (JFloat \<circ> Fin) [60, 70, 80, 90, 100], maxlen = Some 5\<rparr>) = Inr False"
  by (simp add: detect_stall_def get_rolling_window_size_def get_stall_threshold_def
      default_environ_def py_gt_def py_lt_def py_le_def py_sub_def round_double_small
      table_round_def)

text \<open>
  C5, alert classification. With a low threshold that is at most the high threshold,
  a numeric reading (an int, a float or a bool, of value \<open>v\<close>) is answered by no
  warning, by the high warning alone or by the low warning alone; by the high warning
  exactly when it is above the high threshold and by the low warning exactly when it
  is below the low threshold. The comparisons are Python's, exact on finite values.
\<close>

theorem alert_classification:
  assumes "snd (get_heart_rate_threshold_high env) = Inr high"
    and "snd (get_heart_rate_threshold_low env) = Inr low"
    and "fl_le low high"
    and "num_of heart_rate = Some v"
  shows "snd (alert_on_heart_rate_anomaly env heart_rate) = Inr () \<and>
     (warnings (fst (alert_on_heart_rate_anomaly env heart_rate)) = [] \<or>
      warnings (fst (alert_on_heart_rate_anomaly env heart_rate)) = [Warning_High heart_rate] \<or>
      warnings (fst (alert_on_heart_rate_anomaly env heart_rate)) = [Warning_Low heart_rate]) \<and>
     (warnings (fst (alert_on_heart_rate_anomaly env heart_rate)) = [Warning_High heart_rate]) =
       fl_lt high v \<and>
     (warnings (fst (alert_on_heart_rate_anomaly env heart_rate)) = [Warning_Low heart_rate]) =
       fl_lt v low"
proof -
  have r: "snd (alert_on_heart_rate_anomaly env heart_rate) = Inr ()"
    by (simp add: alert_numeric [OF assms(1,2,4)])
  have w: "warnings (fst (alert_on_heart_rate_anomaly env heart_rate)) =
     (if fl_lt high v then [Warning_High heart_rate]
      else if fl_lt v low then [Warning_Low heart_rate] else [])"
    using assms(1,2,4) by (rule warnings_alert_numeric)
  show ?thesis
    using fl_lt_le_trans [OF _ assms(3), of v] by (auto simp add: r w)
qed

theorem alert_classification_witness:
  "warnings (fst (alert_on_heart_rate_anomaly default_environ (JFloat (Fin 130)))) =
     [Warning_High (JFloat (Fin 130))] \<and>
   warnings (fst (alert_on_heart_rate_anomaly default_environ (JInt 35))) = [Warning_Low (JInt 35)] \<and>
   warnings (fst (alert_on_heart_rate_anomaly default_environ (JFloat (Fin 72)))) = []"
proof -
  have h: "snd (get_heart_rate_threshold_high default_environ) = Inr (Fin 120)"
    by (simp add: get_heart_rate_threshold_high_def default_environ_def)
  have l: "snd (get_heart_rate_threshold_low default_environ) = Inr (Fin 40)"
    by (simp add: get_heart_rate_threshold_low_def default_environ_def)
  have o: "fl_le (Fin 40) (Fin 120)" by simp
  have a: "num_of (JFloat (Fin 130)) = Some (Fin 130)" and b: "num_of (JInt 35) = Some (Fin 35)"
    and c: "num_of (JFloat (Fin 72)) = Some (Fin 72)"
    by simp_all
  show ?thesis
    using alert_classification [OF h l o a] alert_classification [OF h l o b]
      alert_classification [OF h l o c]
    by auto
qed

text \<open>
  C6, the low check. For any two thresholds, the low warning is logged exactly when
  the reading is not above the high threshold and is below the low threshold: the low
  comparison is the \<^verbatim>\<open>elif\<close> branch of the high comparison. When the low threshold is
  at most the high threshold, that is exactly when the reading is below the low
  threshold.
\<close>

theorem low_alert_only_after_high_check_fails:
  assumes "snd (get_heart_rate_threshold_high env) = Inr high"
    and "snd (get_heart_rate_threshold_low env) = Inr low"
    and "num_of heart_rate = Some v"
  shows "(Warning_Low heart_rate \<in> set (fst (alert_on_heart_rate_anomaly env heart_rate))) =
           (\<not> fl_lt high v \<and> fl_lt v low) \<and>
         (Warning_High heart_rate \<in> set (fst (alert_on_heart_rate_anomaly env heart_rate))) =
           fl_lt high v \<and>
         (fl_le low high \<longrightarrow>
            (Warning_Low heart_rate \<in> set (fst (alert_on_heart_rate_anomaly env heart_rate))) =
              fl_lt v low)"
  using fl_lt_le_trans [of v low high] by (auto simp add: alert_numeric [OF assms])

theorem low_alert_only_after_high_check_fails_witness:
  "Warning_Low (JFloat (Fin 80)) \<notin> set (fst (alert_on_heart_rate_anomaly
      (default_environ\<lparr>HEART_RATE_THRESHOLD_HIGH := Parses (Fin 40),
                        HEART_RATE_THRESHOLD_LOW := Parses (Fin 120)\<rparr>)
      (JFloat (Fin 80)))) \<and>
   Warning_Low (JFloat (Fin 35)) \<in>
     set (fst (alert_on_heart_rate_anomaly default_environ (JFloat (Fin 35))))"
proof -
  let ?env = "default_environ\<lparr>HEART_RATE_THRESHOLD_HIGH := Parses (Fin 40),
                               HEART_RATE_THRESHOLD_LOW := Parses (Fin 120)\<rparr>"
  have h: "snd (get_heart_rate_threshold_high ?env) = Inr (Fin 40)"
    by (simp add: get_heart_rate_threshold_high_def)
  have l: "snd (get_heart_rate_threshold_low ?env) = Inr (Fin 120)"
    by (simp add: get_heart_rate_threshold_low_def)
  have h': "snd (get_heart_rate_threshold_high default_environ) = Inr (Fin 120)"
    by (simp add: get_heart_rate_threshold_high_def default_environ_def)
  have l': "snd (get_heart_rate_threshold_low default_environ) = Inr (Fin 40)"
    by (simp add: get_heart_rate_threshold_low_def default_environ_def)
  have a: "num_of (JFloat (Fin 80)) = Some (Fin 80)" and b: "num_of (JFloat (Fin 35)) = Some (Fin 35)"
    by simp_all
  show ?thesis
    using low_alert_only_after_high_check_fails [OF h l a]
      low_alert_only_after_high_check_fails [OF h' l' b]
    by simp
qed

text \<open>
  With the thresholds crossed (high 40, low 120) the reading 80 is below the low
  threshold and gets the high warning only; with the same low threshold and the high
  threshold at 200 the same reading gets the low warning.
\<close>

theorem low_check_depends_on_high_check:
  "fl_lt (Fin 80) (Fin 120) \<and>
   warnings (fst (alert_on_heart_rate_anomaly
      (default_environ\<lparr>HEART_RATE_THRESHOLD_HIGH := Parses (Fin 40),
                        HEART_RATE_THRESHOLD_LOW := Parses (Fin 120)\<rparr>)
      (JFloat (Fin 80)))) = [Warning_High (JFloat (Fin 80))] \<and>
   warnings (fst (alert_on_heart_rate_anomaly
      (default_environ\<lparr>HEART_RATE_THRESHOLD_HIGH := Parses (Fin 200),
                        HEART_RATE_THRESHOLD_LOW := Parses (Fin 120)\<rparr>)
      (JFloat (Fin 80)))) = [Warning_Low (JFloat (Fin 80))]"
  by (simp add: alert_on_heart_rate_anomaly_def get_heart_rate_threshold_high_def
      get_heart_rate_threshold_low_def default_environ_def py_gt_def py_lt_def warnings_def)

text \<open>
  C1, malformed input. \<open>process_message\<close> returns for every message: its window is the
  one the body of the \<^verbatim>\<open>try\<close> leaves, and an exception the body raises ends as the last
  event of the log. When the text does not decode, when the decoded object has no
  \<^verbatim>\<open>heart_rate\<close>, and when it has no \<^verbatim>\<open>timestamp\<close>, the window is the one passed in.
\<close>

theorem malformed_input_resilience:
  "fst (process_message json_loads rnd env message w ws) =
     fst (process_message_try json_loads rnd env message w ws) \<and>
   (\<forall>e. snd (snd (process_message_try json_loads rnd env message w ws)) = Inl e \<longrightarrow>
      last (snd (process_message json_loads rnd env message w ws)) =
        (if e = JSONDecodeError then Error_JSONDecoding message e else Error_Processing message e)) \<and>
   (\<forall>e. json_loads message = Inl e \<longrightarrow>
      fst (process_message json_loads rnd env message w ws) = w) \<and>
   (\<forall>items. json_loads message = Inr (JDict items) \<and> map_of items ''heart_rate'' = None \<longrightarrow>
      process_message json_loads rnd env message w ws =
        (w, [Debug_RawMessage message, Info_Processed (JDict items), Error_InvalidFormat message])) \<and>
   (\<forall>items. json_loads message = Inr (JDict items) \<and> map_of items ''timestamp'' = None \<longrightarrow>
      process_message json_loads rnd env message w ws =
        (w, [Debug_RawMessage message, Info_Processed (JDict items), Error_InvalidFormat message]))"
proof (intro conjI allI impI)
  show "fst (process_message json_loads rnd env message w ws) =
     fst (process_message_try json_loads rnd env message w ws)"
    by (rule fst_process_message)
next
  fix e
  assume "snd (snd (process_message_try json_loads rnd env message w ws)) = Inl e"
  then show "last (snd (process_message json_loads rnd env message w ws)) =
        (if e = JSONDecodeError then Error_JSONDecoding message e else Error_Processing message e)"
    by (simp only: process_message_raised last_snoc)
next
  fix e
  assume "json_loads message = Inl e"
  then show "fst (process_message json_loads rnd env message w ws) = w"
    by (simp add: fst_process_message try_decode_error)
next
  fix items
  assume a: "json_loads message = Inr (JDict items) \<and> map_of items ''heart_rate'' = None"
  then have "process_message_try json_loads rnd env message w ws =
     (w, [Debug_RawMessage message, Info_Processed (JDict items), Error_InvalidFormat message], Inr ())"
    by (intro try_missing_field) simp_all
  then show "process_message json_loads rnd env message w ws =
        (w, [Debug_RawMessage message, Info_Processed (JDict items), Error_InvalidFormat message])"
    by (simp add: process_message_def)
next
  fix items
  assume a: "json_loads message = Inr (JDict items) \<and> map_of items ''timestamp'' = None"
  then have "process_message_try json_loads rnd env message w ws =
     (w, [Debug_RawMessage message, Info_Processed (JDict items), Error_InvalidFormat message], Inr ())"
    by (intro try_missing_field) simp_all
  then show "process_message json_loads rnd env message w ws =
        (w, [Debug_RawMessage message, Info_Processed (JDict items), Error_InvalidFormat message])"
    by (simp add: process_message_def)
qed

theorem malformed_input_resilience_witness:
  "fst (process_message (table_loads [(''a'', JDict [(''timestamp'', JStr ''t'')]),
                                       (''b'', JDict [(''heart_rate'', JFloat (Fin 72))])])
          (table_round []) default_environ ''not json'' (deque_new 5) 5) = deque_new 5 \<and>
   fst (process_message (table_loads [(''a'', JDict [(''timestamp'', JStr ''t'')]),
                                       (''b'', JDict [(''heart_rate'', JFloat (Fin 72))])])
          (table_round []) default_environ ''a'' (deque_new 5) 5) = deque_new 5 \<and>
   fst (process_message (table_loads [(''a'', JDict [(''timestamp'', JStr ''t'')]),
                                       (''b'', JDict [(''heart_rate'', JFloat (Fin 72))])])
          (table_round []) default_environ ''b'' (deque_new 5) 5) = deque_new 5"
proof -
  let ?L = "table_loads [(''a'', JDict [(''timestamp'', JStr ''t'')]),
                         (''b'', JDict [(''heart_rate'', JFloat (Fin 72))])]"
  have 1: "?L ''not json'' = Inl JSONDecodeError"
    by (simp add: table_loads_def)
  have 2: "?L ''a'' = Inr (JDict [(''timestamp'', JStr ''t'')]) \<and>
           map_of [(''timestamp'', JStr ''t'')] ''heart_rate'' = None"
    by (simp add: table_loads_def)
  have 3: "?L ''b'' = Inr (JDict [(''heart_rate'', JFloat (Fin 72))]) \<and>
           map_of [(''heart_rate'', JFloat (Fin 72))] ''timestamp'' = None"
    by (simp add: table_loads_def)
  show ?thesis
    using 1 2 3
      malformed_input_resilience [of ?L "table_round []" default_environ "''not json''" "deque_new 5" 5]
      malformed_input_resilience [of ?L "table_round []" default_environ "''a''" "deque_new 5" 5]
      malformed_input_resilience [of ?L "table_round []" default_environ "''b''" "deque_new 5" 5]
    by (metis fst_conv)
qed

text \<open>
  C10, other failures. A payload that is not an object, and one whose \<^verbatim>\<open>heart_rate\<close> is
  neither a number nor a bool, fail before the push: the window is the one passed in.
  A failure that leaves another window is a failure of \<open>detect_stall\<close> on the window
  after the push of a number or a bool. A window of numbers and bools stays one.
  When the anomaly check returns and \<open>detect_stall\<close> raises, the reading is in the
  window and the exception is the last event of the log.
\<close>

theorem failures_before_and_after_push:
  "(\<forall>data. json_loads message = Inr data \<and> (\<forall>items. data \<noteq> JDict items) \<longrightarrow>
      process_message json_loads rnd env message w ws =
        (w, [Debug_RawMessage message, Error_Processing message AttributeError])) \<and>
   (\<forall>data hr. json_loads message = Inr data \<and> py_get data ''heart_rate'' = Inr hr \<and>
      \<not> numeric hr \<longrightarrow>
      fst (process_message json_loads rnd env message w ws) = w) \<and>
   (\<forall>e. snd (snd (process_message_try json_loads rnd env message w ws)) = Inl e \<and>
      fst (process_message json_loads rnd env message w ws) \<noteq> w \<longrightarrow>
      (\<exists>hr. numeric hr \<and>
         fst (process_message json_loads rnd env message w ws) = deque_append w hr \<and>
         snd (detect_stall rnd env (deque_append w hr)) = Inl e)) \<and>
   (list_all numeric (elems w) \<longrightarrow>
      list_all numeric (elems (fst (process_message json_loads rnd env message w ws)))) \<and>
   (\<forall>data hr ts la e. json_loads message = Inr data \<and>
      py_get data ''heart_rate'' = Inr hr \<and> hr \<noteq> JNull \<and>
      py_get data ''timestamp'' = Inr ts \<and> ts \<noteq> JNull \<and>
      alert_on_heart_rate_anomaly env hr = (la, Inr ()) \<and>
      snd (detect_stall rnd env (deque_append w hr)) = Inl e \<longrightarrow>
      fst (process_message json_loads rnd env message w ws) = deque_append w hr \<and>
      last (snd (process_message json_loads rnd env message w ws)) =
        (if e = JSONDecodeError then Error_JSONDecoding message e
         else Error_Processing message e))"
proof (intro conjI allI impI)
  fix data
  assume a: "json_loads message = Inr data \<and> (\<forall>items. data \<noteq> JDict items)"
  then have "py_get data ''heart_rate'' = Inl AttributeError"
    by (cases data) simp_all
  then have "process_message_try json_loads rnd env message w ws =
      (w, [Debug_RawMessage message], Inl AttributeError)"
    using a by (simp add: try_not_dict)
  then show "process_message json_loads rnd env message w ws =
        (w, [Debug_RawMessage message, Error_Processing message AttributeError])"
    by (simp add: process_message_def)
next
  fix data hr
  assume a: "json_loads message = Inr data \<and> py_get data ''heart_rate'' = Inr hr \<and> \<not> numeric hr"
  obtain w' l r where t: "process_message_try json_loads rnd env message w ws = (w', l, r)"
    by (cases "process_message_try json_loads rnd env message w ws") auto
  have "w' = w"
    using try_cases [OF t] a alert_returns_numeric [of env hr] by auto
  then show "fst (process_message json_loads rnd env message w ws) = w"
    by (simp add: fst_process_message t)
next
  fix e
  assume a: "snd (snd (process_message_try json_loads rnd env message w ws)) = Inl e \<and>
      fst (process_message json_loads rnd env message w ws) \<noteq> w"
  obtain w' l r where t: "process_message_try json_loads rnd env message w ws = (w', l, r)"
    by (cases "process_message_try json_loads rnd env message w ws") auto
  have r: "r = Inl e" and w': "w' \<noteq> w" and f: "fst (process_message json_loads rnd env message w ws) = w'"
    using a by (simp_all add: fst_process_message t)
  obtain hr la u where "alert_on_heart_rate_anomaly env hr = (la, Inr u)"
    and "w' = deque_append w hr" and "snd (detect_stall rnd env (deque_append w hr)) = Inl e"
    using try_cases [OF t] r w' by auto
  then show "\<exists>hr. numeric hr \<and>
         fst (process_message json_loads rnd env message w ws) = deque_append w hr \<and>
         snd (detect_stall rnd env (deque_append w hr)) = Inl e"
    using f alert_returns_numeric by blast
next
  assume a: "list_all numeric (elems w)"
  obtain w' l r where t: "process_message_try json_loads rnd env message w ws = (w', l, r)"
    by (cases "process_message_try json_loads rnd env message w ws") auto
  have "list_all numeric (elems w')"
    using try_cases [OF t] a alert_returns_numeric deque_append_numeric by blast
  then show "list_all numeric (elems (fst (process_message json_loads rnd env message w ws)))"
    by (simp add: fst_process_message t)
next
  fix data hr ts la e
  assume a: "json_loads message = Inr data \<and>
      py_get data ''heart_rate'' = Inr hr \<and> hr \<noteq> JNull \<and>
      py_get data ''timestamp'' = Inr ts \<and> ts \<noteq> JNull \<and>
      alert_on_heart_rate_anomaly env hr = (la, Inr ()) \<and>
      snd (detect_stall rnd env (deque_append w hr)) = Inl e"
  obtain ld where d: "detect_stall rnd env (deque_append w hr) = (ld, Inl e)"
    using a by (cases "detect_stall rnd env (deque_append w hr)") auto
  have t: "process_message_try json_loads rnd env message w ws =
      (deque_append w hr, [Debug_RawMessage message, Info_Processed data] @ la @ ld, Inl e)"
    using a d by (simp add: process_message_try_def)
  show "fst (process_message json_loads rnd env message w ws) = deque_append w hr"
    by (simp add: fst_process_message t)
  show "last (snd (process_message json_loads rnd env message w ws)) =
        (if e = JSONDecodeError then Error_JSONDecoding message e
         else Error_Processing message e)"
    using process_message_raised [of json_loads rnd env message w ws e]
    by (simp add: t)
qed

theorem failures_before_and_after_push_witness:
  "process_message (table_loads [(''[72.0]'', JList [JFloat (Fin 72)])]) (table_round []) default_environ ''[72.0]''
      (deque_new 5) 5 =
     (deque_new 5, [Debug_RawMessage ''[72.0]'', Error_Processing ''[72.0]'' AttributeError]) \<and>
   fst (process_message (table_loads [(''hr high'', reading ''t'' (JStr ''high''))]) (table_round []) default_environ
      ''hr high'' (deque_new 5) 5) = deque_new 5 \<and>
   list_all numeric (elems (fst (process_message
      (table_loads [(''hr 72'', reading ''t'' (JFloat (Fin 72)))]) (table_round []) default_environ ''hr 72''
      \<lparr>elems = [JFloat (Fin 70)], maxlen = Some 5\<rparr> 5))) \<and>
   (\<exists>hr. numeric hr \<and>
      fst (process_message (table_loads [(''hr 72'', reading ''t'' (JFloat (Fin 72)))])
        (table_round [])
        (default_environ\<lparr>HEART_ROLLING_WINDOW_SIZE := Parses 1, HEART_STALL_THRESHOLD_BPM := Malformed\<rparr>)
        ''hr 72'' (deque_new 1) 1) = deque_append (deque_new 1) hr \<and>
      snd (detect_stall (table_round [])
        (default_environ\<lparr>HEART_ROLLING_WINDOW_SIZE := Parses 1, HEART_STALL_THRESHOLD_BPM := Malformed\<rparr>)
        (deque_append (deque_new 1) hr)) = Inl ValueError) \<and>
   last (snd (process_message (table_loads [(''hr 72'', reading ''t'' (JFloat (Fin 72)))])
        (table_round [])
        (default_environ\<lparr>HEART_ROLLING_WINDOW_SIZE := Parses 1, HEART_STALL_THRESHOLD_BPM := Malformed\<rparr>)
        ''hr 72'' (deque_new 1) 1)) = Error_Processing ''hr 72'' ValueError"
proof -
  let ?E = "default_environ\<lparr>HEART_ROLLING_WINDOW_SIZE := Parses 1, HEART_STALL_THRESHOLD_BPM := Malformed\<rparr>"
  let ?R = "table_round []"
  let ?L1 = "table_loads [(''[72.0]'', JList [JFloat (Fin 72)])]"
  let ?L2 = "table_loads [(''hr high'', reading ''t'' (JStr ''high''))]"
  let ?L3 = "table_loads [(''hr 72'', reading ''t'' (JFloat (Fin 72)))]"
  have 1: "?L1 ''[72.0]'' = Inr (JList [JFloat (Fin 72)]) \<and> (\<forall>items. JList [JFloat (Fin 72)] \<noteq> JDict items)"
    by (simp add: table_loads_def)
  have 2: "?L2 ''hr high'' = Inr (reading ''t'' (JStr ''high'')) \<and>
      py_get (reading ''t'' (JStr ''high'')) ''heart_rate'' = Inr (JStr ''high'') \<and>
      \<not> numeric (JStr ''high'')"
    by (simp add: table_loads_def reading_def)
  have 3: "list_all numeric (elems \<lparr>elems = [JFloat (Fin 70)], maxlen = Some 5\<rparr>)"
    by simp
  have 4: "snd (snd (process_message_try ?L3 ?R ?E ''hr 72'' (deque_new 1) 1)) = Inl ValueError \<and>
      fst (process_message ?L3 ?R ?E ''hr 72'' (deque_new 1) 1) \<noteq> deque_new 1"
    by (simp add: process_message_def process_message_try_def table_loads_def reading_def
      default_environ_def alert_on_heart_rate_anomaly_def detect_stall_def
      get_heart_rate_threshold_high_def get_heart_rate_threshold_low_def
      get_rolling_window_size_def get_stall_threshold_def
      py_gt_def py_lt_def py_le_def py_sub_def round_double_small table_round_def
      deque_new_def deque_append_def)
  have a: "process_message ?L1 ?R default_environ ''[72.0]'' (deque_new 5) 5 =
     (deque_new 5, [Debug_RawMessage ''[72.0]'', Error_Processing ''[72.0]'' AttributeError])"
    using 1 failures_before_and_after_push [of ?L1 "''[72.0]''" ?R default_environ "deque_new 5" 5]
    by blast
  have b: "fst (process_message ?L2 ?R default_environ ''hr high'' (deque_new 5) 5) = deque_new 5"
    using 2 failures_before_and_after_push [of ?L2 "''hr high''" ?R default_environ "deque_new 5" 5]
    by blast
  have c: "list_all numeric (elems (fst (process_message ?L3 ?R default_environ ''hr 72''
      \<lparr>elems = [JFloat (Fin 70)], maxlen = Some 5\<rparr> 5)))"
    using 3 failures_before_and_after_push [of ?L3 "''hr 72''" ?R default_environ
        "\<lparr>elems = [JFloat (Fin 70)], maxlen = Some 5\<rparr>" 5]
    by blast
  have d: "\<exists>hr. numeric hr \<and>
      fst (process_message ?L3 ?R ?E ''hr 72'' (deque_new 1) 1) = deque_append (deque_new 1) hr \<and>
      snd (detect_stall ?R ?E (deque_append (deque_new 1) hr)) = Inl ValueError"
    using 4 failures_before_and_after_push [of ?L3 "''hr 72''" ?R ?E "deque_new 1" 1]
    by blast
  have 5: "?L3 ''hr 72'' = Inr (reading ''t'' (JFloat (Fin 72))) \<and>
      py_get (reading ''t'' (JFloat (Fin 72))) ''heart_rate'' = Inr (JFloat (Fin 72)) \<and>
      JFloat (Fin 72) \<noteq> JNull \<and>
      py_get (reading ''t'' (JFloat (Fin 72))) ''timestamp'' = Inr (JStr ''t'') \<and>
      JStr ''t'' \<noteq> JNull \<and>
      alert_on_heart_rate_anomaly ?E (JFloat (Fin 72)) =
        ([Info_ThresholdHigh (Fin 120), Info_ThresholdLow (Fin 40)], Inr ()) \<and>
      snd (detect_stall ?R ?E (deque_append (deque_new 1) (JFloat (Fin 72)))) = Inl ValueError"
    by (simp add: table_loads_def reading_def
      default_environ_def alert_on_heart_rate_anomaly_def detect_stall_def
      get_heart_rate_threshold_high_def get_heart_rate_threshold_low_def
      get_rolling_window_size_def get_stall_threshold_def
      py_gt_def py_lt_def py_le_def py_sub_def round_double_small table_round_def
      deque_new_def deque_append_def)
  have e: "last (snd (process_message ?L3 ?R ?E ''hr 72'' (deque_new 1) 1)) =
      Error_Processing ''hr 72'' ValueError"
  proof -
    have "last (snd (process_message ?L3 ?R ?E ''hr 72'' (deque_new 1) 1)) =
        (if ValueError = JSONDecodeError then Error_JSONDecoding ''hr 72'' ValueError
         else Error_Processing ''hr 72'' ValueError)"
      using 5 failures_before_and_after_push [of ?L3 "''hr 72''" ?R ?E "deque_new 1" 1]
      by blast
    then show ?thesis by simp
  qed
  from a b c d e show ?thesis
    by (intro conjI)
qed

text \<open>
  The stall threshold is read after the push: when the environment holds one that
  does not parse, a well-formed reading is pushed and the message then fails with
  \<^verbatim>\<open>ValueError\<close>. A \<^verbatim>\<open>heart_rate\<close> of \<^verbatim>\<open>true\<close> passes the comparison (as 1, below the
  low threshold) and is pushed.
\<close>

theorem stall_failure_after_push:
  "process_message (table_loads [(''hr 72'', reading ''t'' (JFloat (Fin 72)))])
      (table_round [])
      (default_environ\<lparr>HEART_ROLLING_WINDOW_SIZE := Parses 1, HEART_STALL_THRESHOLD_BPM := Malformed\<rparr>)
      ''hr 72'' (deque_new 1) 1 =
     (\<lparr>elems = [JFloat (Fin 72)], maxlen = Some 1\<rparr>,
      [Debug_RawMessage ''hr 72'', Info_Processed (reading ''t'' (JFloat (Fin 72))),
       Info_ThresholdHigh (Fin 120), Info_ThresholdLow (Fin 40), Info_RollingWindowSize 1,
       Error_Processing ''hr 72'' ValueError]) \<and>
   process_message (table_loads [(''hr true'', reading ''t'' (JBool True))]) (table_round []) default_environ
      ''hr true'' (deque_new 5) 5 =
     (\<lparr>elems = [JBool True], maxlen = Some 5\<rparr>,
      [Debug_RawMessage ''hr true'', Info_Processed (reading ''t'' (JBool True)),
       Info_ThresholdHigh (Fin 120), Info_ThresholdLow (Fin 40), Warning_Low (JBool True),
       Info_RollingWindowSize 5, Debug_Waiting 1 5])"
  by (simp add: process_message_def process_message_try_def table_loads_def reading_def
      default_environ_def alert_on_heart_rate_anomaly_def detect_stall_def
      get_heart_rate_threshold_high_def get_heart_rate_threshold_low_def
      get_rolling_window_size_def get_stall_threshold_def
      py_gt_def py_lt_def py_le_def py_sub_def round_double_small table_round_def
      deque_new_def deque_append_def)

text \<open>
  C8, end to end. With window size 5, stall threshold 5, high threshold 120 and low
  threshold 40, the consumer that receives five messages with the readings 70, 71,
  72, 70, 71 holds exactly these in its window, has logged no warning, and has logged
  one stall, at the fifth message, for the range 2. The next message, with the
  reading 130, is answered by the high warning; the window then holds 71, 72, 70, 71,
  130, the range is 60 and no stall is reported. This holds for readings sent as
  ints and for readings sent as floats, whatever the rounding.
\<close>

theorem end_to_end_scenario:
  assumes "json_loads m1 = Inr (reading t1 (num_reading fl 70))"
    and "json_loads m2 = Inr (reading t2 (num_reading fl 71))"
    and "json_loads m3 = Inr (reading t3 (num_reading fl 72))"
    and "json_loads m4 = Inr (reading t4 (num_reading fl 70))"
    and "json_loads m5 = Inr (reading t5 (num_reading fl 71))"
    and "json_loads m6 = Inr (reading t6 (num_reading fl 130))"
  shows "let feed5 = [(scenario_environ, m1), (scenario_environ, m2), (scenario_environ, m3),
                      (scenario_environ, m4), (scenario_environ, m5)];
             r5 = consume json_loads rnd feed5 (deque_new 5) 5;
             r6 = process_message json_loads rnd scenario_environ m6 (fst r5) 5
         in main json_loads rnd scenario_environ feed5 =
              ([Info_RollingWindowSize 5, Info_RollingWindowSize 5] @ snd r5, Inr (fst r5)) \<and>
            elems (fst r5) = map (num_reading fl) [70, 71, 72, 70, 71] \<and>
            warnings (snd r5) = [] \<and>
            stalls (snd r5) = [Info_StallDetected (JStr t5) (num_reading fl 71) 5] \<and>
            Debug_Range (num_reading fl 2) True \<in> set (snd r5) \<and>
            warnings (snd r6) = [Warning_High (num_reading fl 130)] \<and>
            elems (fst r6) = map (num_reading fl) [71, 72, 70, 71, 130] \<and>
            stalls (snd r6) = [] \<and>
            Debug_Range (num_reading fl 60) False \<in> set (snd r6) \<and>
            snd (detect_stall rnd scenario_environ (fst r6)) = Inr False"
proof -
  define w1 where "w1 = \<lparr>elems = map (num_reading fl) [70], maxlen = Some 5\<rparr>"
  define w2 where "w2 = \<lparr>elems = map (num_reading fl) [70, 71], maxlen = Some 5\<rparr>"
  define w3 where "w3 = \<lparr>elems = map (num_reading fl) [70, 71, 72], maxlen = Some 5\<rparr>"
  define w4 where "w4 = \<lparr>elems = map (num_reading fl) [70, 71, 72, 70], maxlen = Some 5\<rparr>"
  define w5 where "w5 = \<lparr>elems = map (num_reading fl) [70, 71, 72, 70, 71], maxlen = Some 5\<rparr>"
  define w6 where "w6 = \<lparr>elems = map (num_reading fl) [71, 72, 70, 71, 130], maxlen = Some 5\<rparr>"
  have a: "deque_append (deque_new 5) (num_reading fl 70) = w1"
    "deque_append w1 (num_reading fl 71) = w2" "deque_append w2 (num_reading fl 72) = w3"
    "deque_append w3 (num_reading fl 70) = w4" "deque_append w4 (num_reading fl 71) = w5"
    "deque_append w5 (num_reading fl 130) = w6"
    by (simp_all add: deque_append_def deque_new_def w1_def w2_def w3_def w4_def w5_def w6_def)
  have d1: "detect_stall rnd scenario_environ w1 = ([Info_RollingWindowSize 5, Debug_Waiting 1 5], Inr False)"
    using scenario_waiting [of w1 rnd] by (simp add: w1_def)
  have d2: "detect_stall rnd scenario_environ w2 = ([Info_RollingWindowSize 5, Debug_Waiting 2 5], Inr False)"
    using scenario_waiting [of w2 rnd] by (simp add: w2_def)
  have d3: "detect_stall rnd scenario_environ w3 = ([Info_RollingWindowSize 5, Debug_Waiting 3 5], Inr False)"
    using scenario_waiting [of w3 rnd] by (simp add: w3_def)
  have d4: "detect_stall rnd scenario_environ w4 = ([Info_RollingWindowSize 5, Debug_Waiting 4 5], Inr False)"
    using scenario_waiting [of w4 rnd] by (simp add: w4_def)
  have d5: "detect_stall rnd scenario_environ w5 =
      ([Info_RollingWindowSize 5, Info_StallThreshold (Fin 5), Debug_Range (num_reading fl 2) True],
       Inr True)"
    unfolding w5_def by (rule scenario_stalled)
  have d6: "detect_stall rnd scenario_environ w6 =
      ([Info_RollingWindowSize 5, Info_StallThreshold (Fin 5), Debug_Range (num_reading fl 60) False],
       Inr False)"
    unfolding w6_def by (rule scenario_stable)
  note p1 = scenario_step [of json_loads m1 t1 fl 70 rnd "deque_new 5", unfolded a, OF assms(1) d1]
  note p2 = scenario_step [of json_loads m2 t2 fl 71 rnd w1, unfolded a, OF assms(2) d2]
  note p3 = scenario_step [of json_loads m3 t3 fl 72 rnd w2, unfolded a, OF assms(3) d3]
  note p4 = scenario_step [of json_loads m4 t4 fl 70 rnd w3, unfolded a, OF assms(4) d4]
  note p5 = scenario_step [of json_loads m5 t5 fl 71 rnd w4, unfolded a, OF assms(5) d5]
  note p6 = scenario_step [of json_loads m6 t6 fl 130 rnd w5, unfolded a, OF assms(6) d6]
  have r5: "consume json_loads rnd [(scenario_environ, m1), (scenario_environ, m2),
        (scenario_environ, m3), (scenario_environ, m4), (scenario_environ, m5)] (deque_new 5) 5 =
      (w5, snd (process_message json_loads rnd scenario_environ m1 (deque_new 5) 5) @
           snd (process_message json_loads rnd scenario_environ m2 w1 5) @
           snd (process_message json_loads rnd scenario_environ m3 w2 5) @
           snd (process_message json_loads rnd scenario_environ m4 w3 5) @
           snd (process_message json_loads rnd scenario_environ m5 w4 5))"
    by (simp add: p1 p2 p3 p4 p5)
  have m: "main json_loads rnd scenario_environ [(scenario_environ, m1), (scenario_environ, m2),
        (scenario_environ, m3), (scenario_environ, m4), (scenario_environ, m5)] =
      ([Info_RollingWindowSize 5, Info_RollingWindowSize 5] @
         snd (consume json_loads rnd [(scenario_environ, m1), (scenario_environ, m2),
           (scenario_environ, m3), (scenario_environ, m4), (scenario_environ, m5)] (deque_new 5) 5),
       Inr w5)"
    by (simp add: main_def scenario_getters(3) r5 del: consume.simps)
  show ?thesis
    unfolding Let_def m r5
    by (simp add: p1 p2 p3 p4 p5 p6 d6 warnings_def stalls_def del: consume.simps)
      (simp add: w5_def w6_def)
qed

theorem end_to_end_scenario_witness:
  "elems (fst (consume
      (table_loads [(''m1'', reading ''t1'' (JFloat (Fin 70))), (''m2'', reading ''t2'' (JFloat (Fin 71))),
                    (''m3'', reading ''t3'' (JFloat (Fin 72))), (''m4'', reading ''t4'' (JFloat (Fin 70))),
                    (''m5'', reading ''t5'' (JFloat (Fin 71))), (''m6'', reading ''t6'' (JFloat (Fin 130)))])
      (table_round [])
      [(scenario_environ, ''m1''), (scenario_environ, ''m2''), (scenario_environ, ''m3''),
       (scenario_environ, ''m4''), (scenario_environ, ''m5'')] (deque_new 5) 5)) =
     map (JFloat \<circ> Fin) [70, 71, 72, 70, 71] \<and>
   stalls (snd (consume
      (table_loads [(''m1'', reading ''t1'' (JFloat (Fin 70))), (''m2'', reading ''t2'' (JFloat (Fin 71))),
                    (''m3'', reading ''t3'' (JFloat (Fin 72))), (''m4'', reading ''t4'' (JFloat (Fin 70))),
                    (''m5'', reading ''t5'' (JFloat (Fin 71))), (''m6'', reading ''t6'' (JFloat (Fin 130)))])
      (table_round [])
      [(scenario_environ, ''m1''), (scenario_environ, ''m2''), (scenario_environ, ''m3''),
       (scenario_environ, ''m4''), (scenario_environ, ''m5'')] (deque_new 5) 5)) =
     [Info_StallDetected (JStr ''t5'') (JFloat (Fin 71)) 5]"
proof -
  let ?L = "table_loads [(''m1'', reading ''t1'' (JFloat (Fin 70))), (''m2'', reading ''t2'' (JFloat (Fin 71))),
                    (''m3'', reading ''t3'' (JFloat (Fin 72))), (''m4'', reading ''t4'' (JFloat (Fin 70))),
                    (''m5'', reading ''t5'' (JFloat (Fin 71))), (''m6'', reading ''t6'' (JFloat (Fin 130)))]"
  have h: "?L ''m1'' = Inr (reading ''t1'' (num_reading True 70))"
    "?L ''m2'' = Inr (reading ''t2'' (num_reading True 71))"
    "?L ''m3'' = Inr (reading ''t3'' (num_reading True 72))"
    "?L ''m4'' = Inr (reading ''t4'' (num_reading True 70))"
    "?L ''m5'' = Inr (reading ''t5'' (num_reading True 71))"
    "?L ''m6'' = Inr (reading ''t6'' (num_reading True 130))"
    by (simp_all add: table_loads_def num_reading_def)
  note s = end_to_end_scenario [of ?L "''m1''" "''t1''" True "''m2''" "''t2''" "''m3''" "''t3''"
      "''m4''" "''t4''" "''m5''" "''t5''" "''m6''" "''t6''" "table_round []", OF h, unfolded Let_def]
  have e: "map (num_reading True) [70, 71, 72, 70, 71] = map (JFloat \<circ> Fin) [70, 71, 72, 70, 71]"
    "num_reading True 71 = JFloat (Fin 71)"
    by (simp_all add: num_reading_def)
  from s show ?thesis
    unfolding e by (intro conjI) (elim conjE, assumption)+
qed

text \<open>
  C9, the tunables. At startup \<open>main\<close> reads the window size, which fixes the capacity of
  the window for good, and none of the three thresholds. A message that fails decode
  or validation is processed without reading the environment. A message that passes
  validation reads the high and low thresholds for its anomaly check: one that does
  not parse fails the message there, and the warning follows the values read. When
  the anomaly check returns, the stall evaluation reads the window size; while the
  window is shorter than that, the stall threshold is not read; on a full window of
  floats it is read and decides the stall.
\<close>

theorem tunables_read_during_processing:
  "(\<forall>w'. snd (main json_loads rnd env0 feed) = Inr w' \<longrightarrow>
      (\<exists>N0. snd (get_rolling_window_size env0) = Inr N0 \<and> maxlen w' = Some (nat N0))) \<and>
   main json_loads rnd
     (env0\<lparr>HEART_RATE_THRESHOLD_HIGH := a, HEART_RATE_THRESHOLD_LOW := b,
           HEART_STALL_THRESHOLD_BPM := c\<rparr>) [] =
     main json_loads rnd env0 [] \<and>
   (json_loads message' = Inl e \<or>
    (json_loads message' = Inr data' \<and>
       (py_get data' ''heart_rate'' = Inl AttributeError \<or>
        py_get data' ''heart_rate'' = Inr JNull \<or> py_get data' ''timestamp'' = Inr JNull)) \<longrightarrow>
      process_message json_loads rnd env' message' w ws =
      process_message json_loads rnd env message' w ws) \<and>
   (json_loads message = Inr data \<and> py_get data ''heart_rate'' = Inr hr \<and> hr \<noteq> JNull \<and>
    py_get data ''timestamp'' = Inr ts \<and> ts \<noteq> JNull \<longrightarrow>
      (HEART_RATE_THRESHOLD_HIGH env = Malformed \<longrightarrow>
         process_message json_loads rnd env message w ws =
           (w, [Debug_RawMessage message, Info_Processed data,
                Error_Processing message ValueError])) \<and>
      (snd (get_heart_rate_threshold_high env) = Inr high \<and>
       HEART_RATE_THRESHOLD_LOW env = Malformed \<longrightarrow>
         process_message json_loads rnd env message w ws =
           (w, [Debug_RawMessage message, Info_Processed data, Info_ThresholdHigh high,
                Error_Processing message ValueError])) \<and>
      (snd (get_heart_rate_threshold_high env) = Inr high \<and>
       snd (get_heart_rate_threshold_low env) = Inr low \<longrightarrow>
         (\<exists>rest. snd (process_message json_loads rnd env message w ws) =
            [Debug_RawMessage message, Info_Processed data,
             Info_ThresholdHigh high, Info_ThresholdLow low] @ rest) \<and>
         (\<forall>v. num_of hr = Some v \<longrightarrow>
            fst (process_message json_loads rnd env message w ws) = deque_append w hr \<and>
            maxlen (fst (process_message json_loads rnd env message w ws)) = maxlen w \<and>
            warnings (snd (process_message json_loads rnd env message w ws)) =
              (if fl_lt high v then [Warning_High hr]
               else if fl_lt v low then [Warning_Low hr] else []) \<and>
            (\<forall>N. snd (get_rolling_window_size env) = Inr N \<longrightarrow>
               Info_RollingWindowSize N \<in>
                 set (snd (process_message json_loads rnd env message w ws)) \<and>
               (int (length (elems (deque_append w hr))) < N \<longrightarrow>
                  (\<forall>th. process_message json_loads rnd
                          (env\<lparr>HEART_STALL_THRESHOLD_BPM := th\<rparr>) message w ws =
                        process_message json_loads rnd env message w ws)) \<and>
               (\<forall>ys t. elems (deque_append w hr) = map (JFloat \<circ> Fin) ys \<and> ys \<noteq> [] \<and>
                    N \<le> int (length ys) \<and> snd (get_stall_threshold env) = Inr t \<longrightarrow>
                  Info_StallThreshold t \<in>
                    set (snd (process_message json_loads rnd env message w ws)) \<and>
                  stalls (snd (process_message json_loads rnd env message w ws)) =
                    (if fl_le (round_double rnd (Max (set ys) - Min (set ys))) t
                     then [Info_StallDetected ts hr ws] else []))))))"
proof (intro conjI)
  show "\<forall>w'. snd (main json_loads rnd env0 feed) = Inr w' \<longrightarrow>
      (\<exists>N0. snd (get_rolling_window_size env0) = Inr N0 \<and> maxlen w' = Some (nat N0))"
    using main_maxlen by blast
next
  show "main json_loads rnd
     (env0\<lparr>HEART_RATE_THRESHOLD_HIGH := a, HEART_RATE_THRESHOLD_LOW := b,
           HEART_STALL_THRESHOLD_BPM := c\<rparr>) [] =
     main json_loads rnd env0 []"
    by (rule main_startup_thresholds)
next
  show "json_loads message' = Inl e \<or>
    (json_loads message' = Inr data' \<and>
       (py_get data' ''heart_rate'' = Inl AttributeError \<or>
        py_get data' ''heart_rate'' = Inr JNull \<or> py_get data' ''timestamp'' = Inr JNull)) \<longrightarrow>
      process_message json_loads rnd env' message' w ws =
      process_message json_loads rnd env message' w ws"
    using process_message_not_validated [of json_loads message' e data'] by blast
next
  show "json_loads message = Inr data \<and> py_get data ''heart_rate'' = Inr hr \<and> hr \<noteq> JNull \<and>
    py_get data ''timestamp'' = Inr ts \<and> ts \<noteq> JNull \<longrightarrow>
      (HEART_RATE_THRESHOLD_HIGH env = Malformed \<longrightarrow>
         process_message json_loads rnd env message w ws =
           (w, [Debug_RawMessage message, Info_Processed data,
                Error_Processing message ValueError])) \<and>
      (snd (get_heart_rate_threshold_high env) = Inr high \<and>
       HEART_RATE_THRESHOLD_LOW env = Malformed \<longrightarrow>
         process_message json_loads rnd env message w ws =
           (w, [Debug_RawMessage message, Info_Processed data, Info_ThresholdHigh high,
                Error_Processing message ValueError])) \<and>
      (snd (get_heart_rate_threshold_high env) = Inr high \<and>
       snd (get_heart_rate_threshold_low env) = Inr low \<longrightarrow>
         (\<exists>rest. snd (process_message json_loads rnd env message w ws) =
            [Debug_RawMessage message, Info_Processed data,
             Info_ThresholdHigh high, Info_ThresholdLow low] @ rest) \<and>
         (\<forall>v. num_of hr = Some v \<longrightarrow>
            fst (process_message json_loads rnd env message w ws) = deque_append w hr \<and>
            maxlen (fst (process_message json_loads rnd env message w ws)) = maxlen w \<and>
            warnings (snd (process_message json_loads rnd env message w ws)) =
              (if fl_lt high v then [Warning_High hr]
               else if fl_lt v low then [Warning_Low hr] else []) \<and>
            (\<forall>N. snd (get_rolling_window_size env) = Inr N \<longrightarrow>
               Info_RollingWindowSize N \<in>
                 set (snd (process_message json_loads rnd env message w ws)) \<and>
               (int (length (elems (deque_append w hr))) < N \<longrightarrow>
                  (\<forall>th. process_message json_loads rnd
                          (env\<lparr>HEART_STALL_THRESHOLD_BPM := th\<rparr>) message w ws =
                        process_message json_loads rnd env message w ws)) \<and>
               (\<forall>ys t. elems (deque_append w hr) = map (JFloat \<circ> Fin) ys \<and> ys \<noteq> [] \<and>
                    N \<le> int (length ys) \<and> snd (get_stall_threshold env) = Inr t \<longrightarrow>
                  Info_StallThreshold t \<in>
                    set (snd (process_message json_loads rnd env message w ws)) \<and>
                  stalls (snd (process_message json_loads rnd env message w ws)) =
                    (if fl_le (round_double rnd (Max (set ys) - Min (set ys))) t
                     then [Info_StallDetected ts hr ws] else [])))))"
  proof (intro impI, elim conjE)
    assume m: "json_loads message = Inr data" and g: "py_get data ''heart_rate'' = Inr hr"
      and n: "hr \<noteq> JNull" and gt: "py_get data ''timestamp'' = Inr ts" and nt: "ts \<noteq> JNull"
    show "(HEART_RATE_THRESHOLD_HIGH env = Malformed \<longrightarrow>
         process_message json_loads rnd env message w ws =
           (w, [Debug_RawMessage message, Info_Processed data,
                Error_Processing message ValueError])) \<and>
      (snd (get_heart_rate_threshold_high env) = Inr high \<and>
       HEART_RATE_THRESHOLD_LOW env = Malformed \<longrightarrow>
         process_message json_loads rnd env message w ws =
           (w, [Debug_RawMessage message, Info_Processed data, Info_ThresholdHigh high,
                Error_Processing message ValueError])) \<and>
      (snd (get_heart_rate_threshold_high env) = Inr high \<and>
       snd (get_heart_rate_threshold_low env) = Inr low \<longrightarrow>
         (\<exists>rest. snd (process_message json_loads rnd env message w ws) =
            [Debug_RawMessage message, Info_Processed data,
             Info_ThresholdHigh high, Info_ThresholdLow low] @ rest) \<and>
         (\<forall>v. num_of hr = Some v \<longrightarrow>
            fst (process_message json_loads rnd env message w ws) = deque_append w hr \<and>
            maxlen (fst (process_message json_loads rnd env message w ws)) = maxlen w \<and>
            warnings (snd (process_message json_loads rnd env message w ws)) =
              (if fl_lt high v then [Warning_High hr]
               else if fl_lt v low then [Warning_Low hr] else []) \<and>
            (\<forall>N. snd (get_rolling_window_size env) = Inr N \<longrightarrow>
               Info_RollingWindowSize N \<in>
                 set (snd (process_message json_loads rnd env message w ws)) \<and>
               (int (length (elems (deque_append w hr))) < N \<longrightarrow>
                  (\<forall>th. process_message json_loads rnd
                          (env\<lparr>HEART_STALL_THRESHOLD_BPM := th\<rparr>) message w ws =
                        process_message json_loads rnd env message w ws)) \<and>
               (\<forall>ys t. elems (deque_append w hr) = map (JFloat \<circ> Fin) ys \<and> ys \<noteq> [] \<and>
                    N \<le> int (length ys) \<and> snd (get_stall_threshold env) = Inr t \<longrightarrow>
                  Info_StallThreshold t \<in>
                    set (snd (process_message json_loads rnd env message w ws)) \<and>
                  stalls (snd (process_message json_loads rnd env message w ws)) =
                    (if fl_le (round_double rnd (Max (set ys) - Min (set ys))) t
                     then [Info_StallDetected ts hr ws] else [])))))"
    proof (intro conjI impI allI; (elim conjE)?)
      assume "HEART_RATE_THRESHOLD_HIGH env = Malformed"
      then show "process_message json_loads rnd env message w ws =
           (w, [Debug_RawMessage message, Info_Processed data,
                Error_Processing message ValueError])"
        using m g n gt nt by (intro validated_high_malformed)
    next
      assume "snd (get_heart_rate_threshold_high env) = Inr high"
        and "HEART_RATE_THRESHOLD_LOW env = Malformed"
      then show "process_message json_loads rnd env message w ws =
           (w, [Debug_RawMessage message, Info_Processed data, Info_ThresholdHigh high,
                Error_Processing message ValueError])"
        using m g n gt nt by (intro validated_low_malformed)
    next
      assume h: "snd (get_heart_rate_threshold_high env) = Inr high"
        and l: "snd (get_heart_rate_threshold_low env) = Inr low"
      show "\<exists>rest. snd (process_message json_loads rnd env message w ws) =
            [Debug_RawMessage message, Info_Processed data,
             Info_ThresholdHigh high, Info_ThresholdLow low] @ rest"
        using m g n gt nt h l by (intro validated_log_prefix)
    next
      fix v
      assume h: "snd (get_heart_rate_threshold_high env) = Inr high"
        and l: "snd (get_heart_rate_threshold_low env) = Inr low"
        and v: "num_of hr = Some v"
      note e = reading_effect [of json_loads message, OF m g v gt nt h l, of rnd w ws]
      show "fst (process_message json_loads rnd env message w ws) = deque_append w hr"
        using e by blast
      show "maxlen (fst (process_message json_loads rnd env message w ws)) = maxlen w"
        using e by blast
      show "warnings (snd (process_message json_loads rnd env message w ws)) =
              (if fl_lt high v then [Warning_High hr]
               else if fl_lt v low then [Warning_Low hr] else [])"
        using e by blast
    next
      fix v N
      assume h: "snd (get_heart_rate_threshold_high env) = Inr high"
        and l: "snd (get_heart_rate_threshold_low env) = Inr low"
        and v: "num_of hr = Some v"
        and s: "snd (get_rolling_window_size env) = Inr N"
      show "Info_RollingWindowSize N \<in>
                 set (snd (process_message json_loads rnd env message w ws))"
        using m g v gt nt h l s by (intro reading_window_size_logged)
    next
      fix v N th
      assume h: "snd (get_heart_rate_threshold_high env) = Inr high"
        and l: "snd (get_heart_rate_threshold_low env) = Inr low"
        and v: "num_of hr = Some v"
        and s: "snd (get_rolling_window_size env) = Inr N"
        and short: "int (length (elems (deque_append w hr))) < N"
      show "process_message json_loads rnd
                          (env\<lparr>HEART_STALL_THRESHOLD_BPM := th\<rparr>) message w ws =
                        process_message json_loads rnd env message w ws"
        using m g v gt nt h l s short by (intro reading_warmup)
    next
      fix v N ys t
      assume h: "snd (get_heart_rate_threshold_high env) = Inr high"
        and l: "snd (get_heart_rate_threshold_low env) = Inr low"
        and v: "num_of hr = Some v"
        and s: "snd (get_rolling_window_size env) = Inr N"
        and f: "elems (deque_append w hr) = map (JFloat \<circ> Fin) ys" "ys \<noteq> []"
          "N \<le> int (length ys)" "snd (get_stall_threshold env) = Inr t"
      note r = reading_full [of json_loads message, OF m g v gt nt h l s f, of rnd ws]
      show "Info_StallThreshold t \<in>
                    set (snd (process_message json_loads rnd env message w ws))"
        using r by blast
      show "stalls (snd (process_message json_loads rnd env message w ws)) =
                    (if fl_le (round_double rnd (Max (set ys) - Min (set ys))) t
                     then [Info_StallDetected ts hr ws] else [])"
        using r by blast
    qed
  qed
qed

theorem tunables_read_during_processing_witness:
  "warnings (snd (process_message
      (table_loads [(''hr 80'', reading ''t'' (JFloat (Fin 80))), (''no hr'', JDict [(''timestamp'', JStr ''t'')])])
      (table_round []) (default_environ\<lparr>HEART_RATE_THRESHOLD_HIGH := Parses (Fin 60)\<rparr>)
      ''hr 80'' (deque_new 5) 5)) = [Warning_High (JFloat (Fin 80))] \<and>
   Info_RollingWindowSize 5 \<in> set (snd (process_message
      (table_loads [(''hr 80'', reading ''t'' (JFloat (Fin 80))), (''no hr'', JDict [(''timestamp'', JStr ''t'')])])
      (table_round []) (default_environ\<lparr>HEART_RATE_THRESHOLD_HIGH := Parses (Fin 60)\<rparr>)
      ''hr 80'' (deque_new 5) 5)) \<and>
   process_message
      (table_loads [(''hr 80'', reading ''t'' (JFloat (Fin 80))), (''no hr'', JDict [(''timestamp'', JStr ''t'')])])
      (table_round [])
      (default_environ\<lparr>HEART_RATE_THRESHOLD_HIGH := Parses (Fin 60), HEART_STALL_THRESHOLD_BPM := Malformed\<rparr>)
      ''hr 80'' (deque_new 5) 5 =
    process_message
      (table_loads [(''hr 80'', reading ''t'' (JFloat (Fin 80))), (''no hr'', JDict [(''timestamp'', JStr ''t'')])])
      (table_round []) (default_environ\<lparr>HEART_RATE_THRESHOLD_HIGH := Parses (Fin 60)\<rparr>)
      ''hr 80'' (deque_new 5) 5 \<and>
   process_message
      (table_loads [(''hr 80'', reading ''t'' (JFloat (Fin 80))), (''no hr'', JDict [(''timestamp'', JStr ''t'')])])
      (table_round []) default_environ ''no hr'' (deque_new 5) 5 =
    process_message
      (table_loads [(''hr 80'', reading ''t'' (JFloat (Fin 80))), (''no hr'', JDict [(''timestamp'', JStr ''t'')])])
      (table_round []) (default_environ\<lparr>HEART_RATE_THRESHOLD_HIGH := Parses (Fin 60)\<rparr>)
      ''no hr'' (deque_new 5) 5"
proof -
  let ?L = "table_loads [(''hr 80'', reading ''t'' (JFloat (Fin 80))),
                         (''no hr'', JDict [(''timestamp'', JStr ''t'')])]"
  let ?R = "table_round []"
  let ?E = "default_environ\<lparr>HEART_RATE_THRESHOLD_HIGH := Parses (Fin 60)\<rparr>"
  let ?hr = "JFloat (Fin 80)"
  have v: "?L ''hr 80'' = Inr (reading ''t'' ?hr) \<and>
      py_get (reading ''t'' ?hr) ''heart_rate'' = Inr ?hr \<and> ?hr \<noteq> JNull \<and>
      py_get (reading ''t'' ?hr) ''timestamp'' = Inr (JStr ''t'') \<and> JStr ''t'' \<noteq> JNull"
    by (simp add: table_loads_def reading_def)
  have g: "snd (get_heart_rate_threshold_high ?E) = Inr (Fin 60) \<and>
      snd (get_heart_rate_threshold_low ?E) = Inr (Fin 40)"
    by (simp add: default_environ_def get_heart_rate_threshold_high_def
        get_heart_rate_threshold_low_def)
  have n: "num_of ?hr = Some (Fin 80)"
    by simp
  have s: "snd (get_rolling_window_size ?E) = Inr 5"
    by (simp add: default_environ_def get_rolling_window_size_def)
  have short: "int (length (elems (deque_append (deque_new 5) ?hr))) < 5"
    by (simp add: deque_append_def deque_new_def)
  have nv: "?L ''no hr'' = Inr (JDict [(''timestamp'', JStr ''t'')]) \<and>
      py_get (JDict [(''timestamp'', JStr ''t'')]) ''heart_rate'' = Inr JNull"
    by (simp add: table_loads_def)
  note T = tunables_read_during_processing [where json_loads = ?L and rnd = ?R and env = ?E
      and message = "''hr 80''" and data = "reading ''t'' ?hr" and hr = ?hr and ts = "JStr ''t''"
      and high = "Fin 60" and low = "Fin 40" and w = "deque_new 5" and ws = 5
      and message' = "''no hr''" and data' = "JDict [(''timestamp'', JStr ''t'')]"
      and env' = default_environ]
  have 1: "warnings (snd (process_message ?L ?R ?E ''hr 80'' (deque_new 5) 5)) = [Warning_High ?hr]"
    using T v g n by auto
  have 2: "Info_RollingWindowSize 5 \<in> set (snd (process_message ?L ?R ?E ''hr 80'' (deque_new 5) 5))"
    using T v g n s by blast
  have 3: "process_message ?L ?R (?E\<lparr>HEART_STALL_THRESHOLD_BPM := Malformed\<rparr>) ''hr 80'' (deque_new 5) 5 =
      process_message ?L ?R ?E ''hr 80'' (deque_new 5) 5"
    using T v g n s short by blast
  have 4: "process_message ?L ?R default_environ ''no hr'' (deque_new 5) 5 =
      process_message ?L ?R ?E ''no hr'' (deque_new 5) 5"
    using T nv by blast
  from 1 2 3 4 show ?thesis
    by simp
qed

text \<open>
  With a high threshold that does not parse the consumer starts, and the first
  message fails in its anomaly check. With the environment at its defaults and left
  alone, the log of each message holds the getters' own events again.
\<close>

theorem thresholds_not_resolved_at_startup:
  "main (table_loads [(''hr 80'', reading ''t'' (JFloat (Fin 80)))]) (table_round [])
      (default_environ\<lparr>HEART_RATE_THRESHOLD_HIGH := Malformed\<rparr>)
      [(default_environ\<lparr>HEART_RATE_THRESHOLD_HIGH := Malformed\<rparr>, ''hr 80'')] =
     ([Info_RollingWindowSize 5, Info_RollingWindowSize 5,
       Debug_RawMessage ''hr 80'', Info_Processed (reading ''t'' (JFloat (Fin 80))),
       Error_Processing ''hr 80'' ValueError],
      Inr (deque_new 5)) \<and>
   fst (main (table_loads [(''hr 80'', reading ''t'' (JFloat (Fin 80)))]) (table_round [])
      default_environ [(default_environ, ''hr 80''), (default_environ, ''hr 80'')]) =
     [Info_RollingWindowSize 5, Info_RollingWindowSize 5,
      Debug_RawMessage ''hr 80'', Info_Processed (reading ''t'' (JFloat (Fin 80))),
      Info_ThresholdHigh (Fin 120), Info_ThresholdLow (Fin 40),
      Info_RollingWindowSize 5, Debug_Waiting 1 5,
      Debug_RawMessage ''hr 80'', Info_Processed (reading ''t'' (JFloat (Fin 80))),
      Info_ThresholdHigh (Fin 120), Info_ThresholdLow (Fin 40),
      Info_RollingWindowSize 5, Debug_Waiting 2 5]"
  by (simp add: main_def process_message_def process_message_try_def table_loads_def reading_def
      default_environ_def alert_on_heart_rate_anomaly_def detect_stall_def
      get_heart_rate_threshold_high_def get_heart_rate_threshold_low_def
      get_rolling_window_size_def get_stall_threshold_def
      py_gt_def py_lt_def deque_new_def deque_append_def)

end
